theory Spec2Isabelle
  imports Complex_Main "HOL-Library.Char_ord" "HOL-Library.List_Lexorder" "HOL-Library.Sublist"
begin

section \<open>Safety-stock calculator (app\_v5.py): a shallow embedding\<close>

text \<open>
  The script reads a table of SKUs, resolves a service level per SKU from a 3x3 matrix,
  computes the safety stock of a periodic-review policy, derives coverage and value
  columns, rounds the selected columns to two decimals and builds three pivot tables.

  Conventions of the embedding.
  \<^item> A float64 cell is a value of type \<open>fl\<close>: a finite number, carried as an exact real
    (the rounding error of binary floating point is not modelled), or one of the three
    non-finite values. Columns whose cells are finite for every finite input are typed
    \<open>real\<close>.
  \<^item> An int64 cell is an integer; int64 arithmetic wraps around (\<open>wrap64\<close>). The two
    columns of the upload that enter integer arithmetic, the unit value and the current
    safety stock, carry their dtype.
  \<^item> \<open>scipy.stats.norm.ppf\<close> is a library function: it is the parameter \<open>ppf\<close>.
  \<^item> The widgets of the page (company filter, search box, SKU selection) only select
    rows: they are the parameter \<open>sel\<close>, a predicate on rows.
  \<^item> \<open>st.warning\<close> appends to a list of messages; \<open>st.stop()\<close> and a raised
    exception are the left summand of the result.
\<close>

subsection \<open>Floating-point cells\<close>

datatype fl = Fin real | PInf | NInf | NaN

text \<open>\<open>np.sqrt\<close>: the square root of a negative number is NaN (with a RuntimeWarning).\<close>

definition np_sqrt :: "real \<Rightarrow> fl" where
  "np_sqrt x = (if x < 0 then NaN else Fin (sqrt x))"

text \<open>The product of a finite number and a cell.\<close>

fun fl_scale :: "real \<Rightarrow> fl \<Rightarrow> fl" where
  "fl_scale c (Fin a) = Fin (c * a)"
| "fl_scale c PInf = (if 0 < c then PInf else if c < 0 then NInf else NaN)"
| "fl_scale c NInf = (if 0 < c then NInf else if c < 0 then PInf else NaN)"
| "fl_scale c NaN = NaN"

text \<open>Subtracting a finite number from a cell.\<close>

fun fl_minus :: "fl \<Rightarrow> real \<Rightarrow> fl" where
  "fl_minus (Fin a) c = Fin (a - c)"
| "fl_minus PInf c = PInf"
| "fl_minus NInf c = NInf"
| "fl_minus NaN c = NaN"

text \<open>
  Division of two finite columns as pandas does it: a zero divisor gives an infinity,
  or NaN for 0/0, and never raises.
\<close>

definition fl_div :: "real \<Rightarrow> real \<Rightarrow> fl" where
  "fl_div a b =
     (if b \<noteq> 0 then Fin (a / b)
      else if 0 < a then PInf else if a < 0 then NInf else NaN)"

definition int64_min :: int where
  "int64_min = - (2 ^ 63)"

text \<open>int64 arithmetic: the result modulo \<open>2^64\<close>, in the range from \<open>-2^63\<close> to \<open>2^63 - 1\<close>.\<close>

definition wrap64 :: "int \<Rightarrow> int" where
  "wrap64 n = (n + 2 ^ 63) mod 2 ^ 64 - 2 ^ 63"

text \<open>
  \<open>np.ceil(x).astype(int)\<close>: the ceiling, cast to int64. The cast of a value outside the
  range of int64, and of a non-finite value, is the minimal int64 on the usual platforms
  (numpy warns "invalid value encountered in cast").
\<close>

fun ceil_astype_int :: "fl \<Rightarrow> int" where
  "ceil_astype_int (Fin a) =
     (if - (2 ^ 63) \<le> \<lceil>a\<rceil> \<and> \<lceil>a\<rceil> < 2 ^ 63 then \<lceil>a\<rceil> else int64_min)"
| "ceil_astype_int PInf = int64_min"
| "ceil_astype_int NInf = int64_min"
| "ceil_astype_int NaN = int64_min"

text \<open>\<open>np.where(cond, a, b)\<close> on one row: both candidates are computed, one is kept.\<close>

definition np_where :: "bool \<Rightarrow> 'a \<Rightarrow> 'a \<Rightarrow> 'a" where
  "np_where c a b = (if c then a else b)"

text \<open>
  \<open>round(2)\<close> of numpy and pandas: scale by 100, round half to even, scale back.
  Non-finite cells are left as they are.
\<close>

definition rint :: "real \<Rightarrow> int" where
  "rint x =
     (let f = \<lfloor>x\<rfloor>; d = x - of_int f
      in if d < 1 / 2 then f else if 1 / 2 < d then f + 1
         else if even f then f else f + 1)"

definition round2 :: "real \<Rightarrow> real" where
  "round2 x = of_int (rint (x * 100)) / 100"

fun fl_round2 :: "fl \<Rightarrow> fl" where
  "fl_round2 (Fin a) = Fin (round2 a)"
| "fl_round2 PInf = PInf"
| "fl_round2 NInf = NInf"
| "fl_round2 NaN = NaN"

subsection \<open>Rows of the uploaded table\<close>

text \<open>
  One row of \<open>df\<close> after \<open>pd.to_numeric(errors='coerce')\<close> and \<open>fillna(0)\<close>: the numeric
  columns hold finite numbers. The columns the calculation never reads are left out.

  \<open>pd.read_excel\<close> reads a whole number as an integer and makes a column int64 when every
  cell of it is one; a column with a fraction, an empty or a non-numeric cell is float64.
  In a row of the sheet \<open>valor_unit_int\<close> and \<open>estoque_seguranca_int\<close> say that the cell is
  such a whole number (within the range of int64); in a row of the loaded table they say
  that the column is int64.
\<close>

record linha =
  empresa :: string
  classe :: string
  sku :: string
  descricao :: string
  criticidade :: string
  curva :: string
  lead_time_medio :: real
  desvio_padrao_lt :: real
  consumo_medio :: real
  desvio_padrao_consumo :: real
  valor_unit :: real
  estoque_inicial :: real
  estoque_seguranca :: real
  valor_unit_int :: bool
  estoque_seguranca_int :: bool

text \<open>
  \<open>str.upper()\<close> on the bytes of a string: the ASCII letters a-z are mapped to A-Z.
  (Python also maps letters beyond ASCII; no property below depends on them.)
\<close>

definition upper_char :: "char \<Rightarrow> char" where
  "upper_char c =
     (if CHR ''a'' \<le> c \<and> c \<le> CHR ''z'' then char_of (of_char c - (32::nat)) else c)"

definition str_upper :: "string \<Rightarrow> string" where
  "str_upper s = map upper_char s"

text \<open>Lines 93-98: the three string columns are upper-cased.\<close>

definition padronizar :: "linha \<Rightarrow> linha" where
  "padronizar r =
     r\<lparr>criticidade := str_upper (criticidade r),
       curva := str_upper (curva r),
       sku := str_upper (sku r)\<rparr>"

text \<open>
  The loaded table: the dtype of a column is int64 when all its cells are whole numbers,
  and every row is upper-cased.
\<close>

definition carregar :: "linha list \<Rightarrow> linha list" where
  "carregar df =
     map (\<lambda>r. (padronizar r)\<lparr>valor_unit_int := list_all valor_unit_int df,
                             estoque_seguranca_int := list_all estoque_seguranca_int df\<rparr>) df"

subsection \<open>The service-level matrix\<close>

text \<open>
  \<open>matriz_editada\<close>: a frame with row labels, column labels and integer cells. The
  editor has a fixed number of rows, so the labels are those of \<open>matriz_default\<close>.
\<close>

record matriz =
  m_index :: "string list"
  m_columns :: "string list"
  m_loc :: "string \<Rightarrow> string \<Rightarrow> int"

definition matriz_default :: matriz where
  "matriz_default =
     \<lparr>m_index = [''X'', ''Y'', ''Z''], m_columns = [''A'', ''B'', ''C''],
      m_loc = (\<lambda>c v. 95)\<rparr>"

subsection \<open>The loop over the rows (lines 186-207)\<close>

record linha_calc =
  entrada :: linha
  nivel :: int
  z :: real
  ss_calculado :: fl
  ss_arredondado :: int

definition mapeada :: "matriz \<Rightarrow> linha \<Rightarrow> bool" where
  "mapeada M r \<longleftrightarrow> criticidade r \<in> set (m_index M) \<and> curva r \<in> set (m_columns M)"

text \<open>The text of the warning of line 196 (the bytes of its UTF-8 encoding).\<close>

definition aviso :: "linha \<Rightarrow> string" where
  "aviso r =
     ''SKU '' @ sku r @ '': Criticidade '' @ [CHR 0x27] @ criticidade r @ [CHR 0x27]
     @ '' ou Curva '' @ [CHR 0x27] @ curva r @ [CHR 0x27]
     @ '' n'' @ [CHR 0xC3, CHR 0xA3] @ ''o mapeada. Usando default 95%.''"

text \<open>Lines 190-196: the level, the quantile and the warning of one row.\<close>

definition resolver :: "(real \<Rightarrow> real) \<Rightarrow> matriz \<Rightarrow> linha \<Rightarrow> int \<times> real \<times> string list" where
  "resolver ppf M r =
     (if criticidade r \<in> set (m_index M) \<and> curva r \<in> set (m_columns M)
      then (let nv = m_loc M (criticidade r) (curva r)
            in (nv, ppf (real_of_int nv / 100), []))
      else (95, ppf (95 / 100), [aviso r]))"

definition periodo :: "linha \<Rightarrow> real" where
  "periodo r = lead_time_medio r + 1"

definition var_dem :: "linha \<Rightarrow> real" where
  "var_dem r = periodo r * (desvio_padrao_consumo r)\<^sup>2"

definition var_lt :: "linha \<Rightarrow> real" where
  "var_lt r = (consumo_medio r)\<^sup>2 * (desvio_padrao_lt r)\<^sup>2"

text \<open>
  Lines 201-205: the raw safety stock for a quantile \<open>zv\<close>. The radicand is computed
  exactly. (Statistics that are all whole numbers reach these lines as Python integers,
  whose arithmetic is exact as well; \<open>np.sqrt\<close> takes such a radicand as a 64-bit
  integer, and one that does not fit raises TypeError. The properties of the raw safety
  stock below are stated for radicands below \<open>2^63\<close>.)
\<close>

definition ss_calc :: "real \<Rightarrow> linha \<Rightarrow> fl" where
  "ss_calc zv r = fl_scale zv (np_sqrt (var_dem r + var_lt r))"

text \<open>The body of the loop: the four columns written for one row, and its warnings.\<close>

definition passo :: "(real \<Rightarrow> real) \<Rightarrow> matriz \<Rightarrow> linha \<Rightarrow> linha_calc \<times> string list" where
  "passo ppf M r =
     (case resolver ppf M r of (nv, zv, ws) \<Rightarrow>
        (\<lparr>entrada = r, nivel = nv, z = zv,
          ss_calculado = ss_calc zv r,
          ss_arredondado = ceil_astype_int (ss_calc zv r)\<rparr>, ws))"

text \<open>
  \<open>for idx, row in resultado.iterrows()\<close>: the rows in order, the warnings shown so far
  threaded through.
\<close>

fun iterrows :: "(real \<Rightarrow> real) \<Rightarrow> matriz \<Rightarrow> linha list \<Rightarrow> string list
    \<Rightarrow> linha_calc list \<times> string list" where
  "iterrows ppf M [] avisos = ([], avisos)"
| "iterrows ppf M (r # rs) avisos =
     (case passo ppf M r of (c, ws) \<Rightarrow>
        (case iterrows ppf M rs (avisos @ ws) of (cs, avisos') \<Rightarrow> (c # cs, avisos')))"

subsection \<open>Derived columns (lines 209-223)\<close>

record linha_res =
  calc :: linha_calc
  cobertura_atual_meses :: real
  cobertura_calculada_meses :: real
  valor_ss_calculado :: real
  diferenca_unidades :: real
  diferenca_pct :: fl

text \<open>
  \<open>np.where(consumo > 0, x / consumo, 0)\<close>: the quotient is kept only where the divisor is
  positive, where it is finite; elsewhere it is replaced by 0.
\<close>

definition cobertura :: "real \<Rightarrow> real \<Rightarrow> real" where
  "cobertura x consumo = (if 0 < consumo then x / consumo else 0)"

text \<open>
  Lines 219-223. The quotient is computed on every row, also where the current safety
  stock is 0; \<open>np.where\<close> then keeps it or puts NaN.
\<close>

definition dif_pct :: "int \<Rightarrow> real \<Rightarrow> fl" where
  "dif_pct ss atual =
     np_where (0 < atual) (fl_scale 100 (fl_minus (fl_div (real_of_int ss) atual) 1)) NaN"

text \<open>
  Lines 215 and 218: \<open>SS_Arredondado\<close> is an int64 column, so the product with an int64
  unit value and the difference with an int64 current safety stock are int64
  operations, which wrap around; with a float64 column they are float64 operations.
  The divisions of lines 211, 212 and 221 are float64 divisions for either dtype.
\<close>

definition vezes :: "bool \<Rightarrow> real \<Rightarrow> real \<Rightarrow> real" where
  "vezes inteiro a b = (if inteiro then real_of_int (wrap64 (\<lfloor>a\<rfloor> * \<lfloor>b\<rfloor>)) else a * b)"

definition menos :: "bool \<Rightarrow> real \<Rightarrow> real \<Rightarrow> real" where
  "menos inteiro a b = (if inteiro then real_of_int (wrap64 (\<lfloor>a\<rfloor> - \<lfloor>b\<rfloor>)) else a - b)"

definition metricas :: "linha_calc \<Rightarrow> linha_res" where
  "metricas c =
     (let r = entrada c; ss = ss_arredondado c
      in \<lparr>calc = c,
          cobertura_atual_meses = cobertura (estoque_seguranca r) (consumo_medio r),
          cobertura_calculada_meses = cobertura (real_of_int ss) (consumo_medio r),
          valor_ss_calculado = vezes (valor_unit_int r) (real_of_int ss) (valor_unit r),
          diferenca_unidades = menos (estoque_seguranca_int r) (real_of_int ss) (estoque_seguranca r),
          diferenca_pct = dif_pct ss (estoque_seguranca r)\<rparr>)"

subsection \<open>The displayed table (lines 226-242)\<close>

record linha_tabela =
  t_empresa :: string
  t_classe :: string
  t_sku :: string
  t_descricao :: string
  t_criticidade :: string
  t_curva :: string
  t_nivel :: int
  t_lead_time :: real
  t_consumo :: real
  t_ss_atual :: real
  t_ss_calculado :: int
  t_dif_unidades :: real
  t_dif_pct :: fl
  t_cob_atual :: real
  t_cob_calculada :: real
  t_valor_unit :: real
  t_valor_ss :: real

text \<open>
  \<open>resultado[[...]].round(2)\<close>: every float column of the selection is rounded; the
  string and integer columns are not changed by \<open>round\<close>. (An int64 column holds whole
  numbers, which \<open>round2\<close> leaves as they are.)
\<close>

definition linha_da_tabela :: "linha_res \<Rightarrow> linha_tabela" where
  "linha_da_tabela x =
     (let c = calc x; r = entrada c
      in \<lparr>t_empresa = empresa r, t_classe = classe r, t_sku = sku r,
          t_descricao = descricao r, t_criticidade = criticidade r, t_curva = curva r,
          t_nivel = nivel c,
          t_lead_time = round2 (lead_time_medio r),
          t_consumo = round2 (consumo_medio r),
          t_ss_atual = round2 (estoque_seguranca r),
          t_ss_calculado = ss_arredondado c,
          t_dif_unidades = round2 (diferenca_unidades x),
          t_dif_pct = fl_round2 (diferenca_pct x),
          t_cob_atual = round2 (cobertura_atual_meses x),
          t_cob_calculada = round2 (cobertura_calculada_meses x),
          t_valor_unit = round2 (valor_unit r),
          t_valor_ss = round2 (valor_ss_calculado x)\<rparr>)"

subsection \<open>Frames and pivot tables (lines 272-315)\<close>

datatype erro = NenhumSku | ValueError

record frame =
  f_index :: "string list"
  f_columns :: "string list"
  f_data :: "fl list list"

text \<open>The position of the first occurrence of a label.\<close>

fun posicao :: "'a \<Rightarrow> 'a list \<Rightarrow> nat option" where
  "posicao x [] = None"
| "posicao x (y # ys) = (if x = y then Some 0 else map_option Suc (posicao x ys))"

text \<open>\<open>df.loc[r, c]\<close>; \<open>None\<close> is the KeyError of a label that is not there.\<close>

definition loc :: "frame \<Rightarrow> string \<Rightarrow> string \<Rightarrow> fl option" where
  "loc df r c =
     (case posicao r (f_index df) of
        None \<Rightarrow> None
      | Some i \<Rightarrow>
          (case posicao c (f_columns df) of
             None \<Rightarrow> None
           | Some j \<Rightarrow>
               if i < length (f_data df) \<and> j < length (f_data df ! i)
               then Some (f_data df ! i ! j) else None))"

text \<open>The values of the rows of the data that satisfy \<open>P\<close>: one group of a groupby.\<close>

definition grupo :: "(string \<times> string \<times> 'v \<Rightarrow> bool) \<Rightarrow> (string \<times> string \<times> 'v) list \<Rightarrow> 'v list" where
  "grupo P dados = map (\<lambda>d. snd (snd d)) (filter P dados)"

text \<open>
  The sum of a column or of a group: of an int64 column it is an int64 sum, which wraps
  around (the exact sum modulo \<open>2^64\<close>).
\<close>

definition agg_sum :: "bool \<Rightarrow> real list \<Rightarrow> real" where
  "agg_sum inteiro xs =
     (if inteiro then real_of_int (wrap64 \<lfloor>sum_list xs\<rfloor>) else sum_list xs)"

definition agg_mean :: "real list \<Rightarrow> real" where
  "agg_mean xs = sum_list xs / real (length xs)"

definition agg_count :: "'v list \<Rightarrow> real" where
  "agg_count xs = real (length xs)"

text \<open>
  \<open>pd.pivot_table(..., index, columns, aggfunc, fill_value=0, margins=True,
  margins_name='Total')\<close> on rows (index key, column key, value) without nulls.
  The labels are the keys that occur, sorted; a combination that does not occur is
  filled with 0; the margin column aggregates each index key, the margin row each
  column key, their crossing the whole data. A key equal to the name of the margins
  raises ValueError. No cell of the result is null, so the final removal of the columns
  that are null throughout removes nothing.
\<close>

definition pivot_table :: "('v list \<Rightarrow> real) \<Rightarrow> (string \<times> string \<times> 'v) list \<Rightarrow> erro + frame" where
  "pivot_table aggfunc dados =
     (let rows = sort (remdups (map fst dados));
          cols = sort (remdups (map (\<lambda>d. fst (snd d)) dados));
          celula = (\<lambda>r c.
            let g = grupo (\<lambda>d. fst d = r \<and> fst (snd d) = c) dados
            in Fin (if g = [] then 0 else aggfunc g));
          margem_linha = (\<lambda>r. Fin (aggfunc (grupo (\<lambda>d. fst d = r) dados)));
          margem_coluna = (\<lambda>c. Fin (aggfunc (grupo (\<lambda>d. fst (snd d) = c) dados)));
          total = Fin (aggfunc (grupo (\<lambda>d. True) dados))
      in if ''Total'' \<in> set rows \<or> ''Total'' \<in> set cols then Inl ValueError
         else Inr \<lparr>f_index = rows @ [''Total''],
                   f_columns = cols @ [''Total''],
                   f_data = map (\<lambda>r. map (celula r) cols @ [margem_linha r]) rows
                            @ [map margem_coluna cols @ [total]]\<rparr>)"

text \<open>\<open>df.reindex(labels)\<close>: the rows in the order of the labels; a label that the frame
  does not have gives a row of NaN.\<close>

definition reindex :: "frame \<Rightarrow> string list \<Rightarrow> frame" where
  "reindex df labels =
     df\<lparr>f_index := labels,
        f_data := map (\<lambda>l. case posicao l (f_index df) of
                               Some i \<Rightarrow> f_data df ! i
                             | None \<Rightarrow> replicate (length (f_columns df)) NaN) labels\<rparr>"

text \<open>Lines 283, 299, 315: the last column is labelled 'Total' if a column 'Total' exists.\<close>

definition rotular_total :: "frame \<Rightarrow> frame" where
  "rotular_total df =
     (if ''Total'' \<in> set (f_columns df)
      then df\<lparr>f_columns := butlast (f_columns df) @ [''Total'']\<rparr> else df)"

definition resumo :: "('v list \<Rightarrow> real) \<Rightarrow> (string \<times> string \<times> 'v) list \<Rightarrow> erro + frame" where
  "resumo aggfunc dados =
     (case pivot_table aggfunc dados of
        Inl e \<Rightarrow> Inl e
      | Inr t \<Rightarrow> Inr (rotular_total (reindex t [''X'', ''Y'', ''Z'', ''Total''])))"

subsection \<open>One calculation (lines 170-332)\<close>

text \<open>
  \<open>vi\<close> and \<open>ei\<close> are the dtypes of the unit value and of the current safety stock:
  the value column is int64 with \<open>vi\<close>, and the products of line 256 are int64 with
  both. The sums of lines 256 and 257 and the difference of line 258 are taken in the
  dtype of their operands.
\<close>

record saida =
  resultado :: "linha_res list"
  avisos :: "string list"
  tabela :: "linha_tabela list"
  valor_atual :: real
  valor_novo :: real
  impacto :: real
  matriz_valor :: frame
  matriz_cobertura :: frame
  matriz_count :: frame
  excel :: "linha_tabela list"

definition calcular :: "(real \<Rightarrow> real) \<Rightarrow> matriz \<Rightarrow> linha list \<Rightarrow> erro + saida" where
  "calcular ppf M rs =
     (if rs = [] then Inl NenhumSku
      else
        (case iterrows ppf M rs [] of (cs, ws) \<Rightarrow>
          (let res = map metricas cs;
               tab = map linha_da_tabela res;
               vi = list_all valor_unit_int rs;
               ei = list_all estoque_seguranca_int rs;
               atual = agg_sum (ei \<and> vi)
                 (map (\<lambda>t. vezes (ei \<and> vi) (t_ss_atual t) (t_valor_unit t)) tab);
               novo = agg_sum vi (map t_valor_ss tab)
           in
            (case resumo (agg_sum vi) (map (\<lambda>t. (t_criticidade t, t_curva t, t_valor_ss t)) tab) of
               Inl e \<Rightarrow> Inl e
             | Inr mv \<Rightarrow>
            (case resumo agg_mean (map (\<lambda>t. (t_criticidade t, t_curva t, t_cob_calculada t)) tab) of
               Inl e \<Rightarrow> Inl e
             | Inr mc \<Rightarrow>
            (case resumo agg_count (map (\<lambda>t. (t_criticidade t, t_curva t, t_sku t)) tab) of
               Inl e \<Rightarrow> Inl e
             | Inr mn \<Rightarrow>
                 Inr \<lparr>resultado = res, avisos = ws, tabela = tab,
                      valor_atual = atual, valor_novo = novo,
                      impacto = menos (ei \<and> vi) novo atual,
                      matriz_valor = mv, matriz_cobertura = mc, matriz_count = mn,
                      excel = tab\<rparr>))))))"

text \<open>The page: the loaded table, the rows selected by the filters, the calculation.\<close>

definition app :: "(real \<Rightarrow> real) \<Rightarrow> matriz \<Rightarrow> (linha \<Rightarrow> bool) \<Rightarrow> linha list \<Rightarrow> erro + saida" where
  "app ppf M sel df = calcular ppf M (filter sel (carregar df))"

subsection \<open>Frames as functions of their labels\<close>

text \<open>
  A frame whose cell at row \<open>r\<close> and column \<open>c\<close> is \<open>f r c\<close>, and the cell of
  \<open>pivot_table\<close> as such a function; both serve to state what \<open>loc\<close> finds.
\<close>

definition grade :: "string list \<Rightarrow> string list \<Rightarrow> (string \<Rightarrow> string \<Rightarrow> fl) \<Rightarrow> frame" where
  "grade idx cols f = \<lparr>f_index = idx, f_columns = cols, f_data = map (\<lambda>r. map (f r) cols) idx\<rparr>"

definition celula_pivot :: "('v list \<Rightarrow> real) \<Rightarrow> (string \<times> string \<times> 'v) list \<Rightarrow> string \<Rightarrow> string \<Rightarrow> fl" where
  "celula_pivot aggfunc dados r c =
     (if r = ''Total''
      then (if c = ''Total'' then Fin (aggfunc (grupo (\<lambda>d. True) dados))
            else Fin (aggfunc (grupo (\<lambda>d. fst (snd d) = c) dados)))
      else if c = ''Total'' then Fin (aggfunc (grupo (\<lambda>d. fst d = r) dados))
      else (let g = grupo (\<lambda>d. fst d = r \<and> fst (snd d) = c) dados
            in Fin (if g = [] then 0 else aggfunc g)))"

subsection \<open>Example inputs\<close>

text \<open>
  The filters left as the page sets them (every company, no search text, no SKU chosen);
  the record and the matrix of the worked example of the specification; and a quantile
  function that is right to four decimals at the two levels the examples use,
  0.98 and 0.95. The other records vary the example: a curve D that the matrix does not
  have, a current safety stock of 0, a mean lead time of -2, a criticality W, Y or Z,
  and a unit value of 0.004 with a current safety stock of 1000. Unit value and current
  safety stock are whole numbers in the example, so their columns are int64; the unit
  value 0.004 makes its column float64.
\<close>

definition todas :: "linha \<Rightarrow> bool" where
  "todas r = True"

definition linha_exemplo :: linha where
  "linha_exemplo =
     \<lparr>empresa = ''E1'', classe = ''C1'', sku = ''SKU1'', descricao = ''ITEM'',
      criticidade = ''X'', curva = ''A'',
      lead_time_medio = 2, desvio_padrao_lt = 1 / 2,
      consumo_medio = 100, desvio_padrao_consumo = 20,
      valor_unit = 10, estoque_inicial = 0, estoque_seguranca = 100,
      valor_unit_int = True, estoque_seguranca_int = True\<rparr>"

definition matriz_exemplo :: matriz where
  "matriz_exemplo =
     matriz_default\<lparr>m_loc := (\<lambda>c v. if c = ''X'' \<and> v = ''A'' then 98 else 95)\<rparr>"

definition ppf_exemplo :: "real \<Rightarrow> real" where
  "ppf_exemplo p = (if p = 98 / 100 then 20537 / 10000 else 16449 / 10000)"

definition linha_curva_d :: linha where
  "linha_curva_d = linha_exemplo\<lparr>sku := ''SKU2'', curva := ''D''\<rparr>"

definition linha_sem_ss :: linha where
  "linha_sem_ss = linha_exemplo\<lparr>sku := ''SKU3'', estoque_seguranca := 0\<rparr>"

definition linha_lt_negativo :: linha where
  "linha_lt_negativo = linha_exemplo\<lparr>lead_time_medio := - 2, consumo_medio := 0\<rparr>"

definition linha_crit_w :: linha where
  "linha_crit_w = linha_exemplo\<lparr>sku := ''SKU4'', criticidade := ''W''\<rparr>"

definition linha_crit_y :: linha where
  "linha_crit_y = linha_exemplo\<lparr>sku := ''SKU6'', criticidade := ''Y''\<rparr>"

definition linha_crit_z :: linha where
  "linha_crit_z = linha_exemplo\<lparr>sku := ''SKU7'', criticidade := ''Z''\<rparr>"

definition linha_milesimos :: linha where
  "linha_milesimos =
     linha_exemplo\<lparr>sku := ''SKU5'', valor_unit := 4 / 1000, estoque_seguranca := 1000,
       valor_unit_int := False\<rparr>"

section \<open>Properties\<close>

subsection \<open>The loop, the upper-casing and the pivot tables\<close>

lemma upper_char_not_o: "upper_char c \<noteq> CHR ''o''"
proof (cases "CHR ''a'' \<le> c \<and> c \<le> CHR ''z''")
  case True
  then have b: "97 \<le> (of_char c :: nat)" "(of_char c :: nat) \<le> 122"
    unfolding less_eq_char_def by simp_all
  have "(of_char (upper_char c) :: nat) = of_char c - 32"
    using True b by (simp add: upper_char_def)
  then have "(of_char (upper_char c) :: nat) \<noteq> 111" using b by linarith
  then show ?thesis by auto
next
  case False
  then have "upper_char c = c" by (auto simp: upper_char_def)
  moreover have "c \<noteq> CHR ''o''" using False unfolding less_eq_char_def by auto
  ultimately show ?thesis by simp
qed

lemma str_upper_not_Total: "str_upper s \<noteq> ''Total''"
proof
  assume h: "str_upper s = ''Total''"
  then have "CHR ''o'' \<in> set (str_upper s)" by simp
  then obtain c where "upper_char c = CHR ''o''" by (auto simp: str_upper_def)
  with upper_char_not_o [of c] show False by simp
qed

lemma iterrows_fst: "fst (iterrows ppf M rs a) = map (\<lambda>r. fst (passo ppf M r)) rs"
  by (induction rs arbitrary: a) (simp_all add: case_prod_beta)

lemma iterrows_snd: "snd (iterrows ppf M rs a) = a @ concat (map (\<lambda>r. snd (passo ppf M r)) rs)"
  by (induction rs arbitrary: a) (simp_all add: case_prod_beta)

lemma posicao_None: "posicao x xs = None \<longleftrightarrow> x \<notin> set xs"
  by (induction xs) auto

lemma posicao_Some: "posicao x xs = Some i \<Longrightarrow> i < length xs \<and> xs ! i = x"
  by (induction xs arbitrary: i) (auto split: if_splits)

lemma loc_grade:
  "loc (grade idx cols f) r c = (if r \<in> set idx \<and> c \<in> set cols then Some (f r c) else None)"
proof (cases "posicao r idx")
  case None
  moreover from None have "r \<notin> set idx" by (simp add: posicao_None)
  ultimately show ?thesis by (simp add: loc_def grade_def)
next
  case (Some i)
  note si = Some
  have ri: "i < length idx" "idx ! i = r" using posicao_Some [OF si] by simp_all
  then have rin: "r \<in> set idx" by auto
  show ?thesis
  proof (cases "posicao c cols")
    case None
    moreover from None have "c \<notin> set cols" by (simp add: posicao_None)
    ultimately show ?thesis using si by (simp add: loc_def grade_def)
  next
    case (Some j)
    have cj: "j < length cols" "cols ! j = c" using posicao_Some [OF Some] by simp_all
    then have "c \<in> set cols" by auto
    then show ?thesis using si Some ri cj rin by (simp add: loc_def grade_def)
  qed
qed

lemma reindex_grade:
  "reindex (grade idx cols f) labels =
     grade labels cols (\<lambda>r c. if r \<in> set idx then f r c else NaN)"
proof -
  have "(case posicao l idx of Some i \<Rightarrow> map (\<lambda>r. map (f r) cols) idx ! i
          | None \<Rightarrow> replicate (length cols) NaN)
        = map (\<lambda>c. if l \<in> set idx then f l c else NaN) cols" for l
  proof (cases "posicao l idx")
    case None
    moreover from None have "l \<notin> set idx" by (simp add: posicao_None)
    ultimately show ?thesis by (simp add: map_replicate_const)
  next
    case (Some i)
    have "i < length idx" "idx ! i = l" using posicao_Some [OF Some] by simp_all
    then show ?thesis using Some by auto
  qed
  then show ?thesis by (simp add: reindex_def grade_def cong: option.case_cong)
qed

lemma rotular_total_grade: "rotular_total (grade idx (cs @ [''Total'']) f) = grade idx (cs @ [''Total'']) f"
  by (simp add: rotular_total_def grade_def)

lemma pivot_table_grade:
  assumes "''Total'' \<notin> fst ` set dados" "''Total'' \<notin> (\<lambda>d. fst (snd d)) ` set dados"
  shows "pivot_table aggfunc dados =
     Inr (grade (sort (remdups (map fst dados)) @ [''Total''])
                (sort (remdups (map (\<lambda>d. fst (snd d)) dados)) @ [''Total''])
                (celula_pivot aggfunc dados))"
proof -
  have a: "celula_pivot aggfunc dados x y =
      Fin (if grupo (\<lambda>d. fst d = x \<and> fst (snd d) = y) dados = [] then 0
           else aggfunc (grupo (\<lambda>d. fst d = x \<and> fst (snd d) = y) dados))"
    if "x \<in> fst ` set dados" "y \<in> (\<lambda>d. fst (snd d)) ` set dados" for x y
  proof -
    have "x \<noteq> ''Total''" "y \<noteq> ''Total''" using that assms by blast+
    then show ?thesis by (simp add: celula_pivot_def Let_def)
  qed
  have b: "celula_pivot aggfunc dados x ''Total'' = Fin (aggfunc (grupo (\<lambda>d. fst d = x) dados))"
    if "x \<in> fst ` set dados" for x
  proof -
    have "x \<noteq> ''Total''" using that assms by blast
    then show ?thesis by (simp add: celula_pivot_def)
  qed
  have c: "celula_pivot aggfunc dados ''Total'' y = Fin (aggfunc (grupo (\<lambda>d. fst (snd d) = y) dados))"
    if "y \<in> (\<lambda>d. fst (snd d)) ` set dados" for y
  proof -
    have "y \<noteq> ''Total''" using that assms by blast
    then show ?thesis by (simp add: celula_pivot_def)
  qed
  have d: "celula_pivot aggfunc dados ''Total'' ''Total'' = Fin (aggfunc (grupo (\<lambda>d. True) dados))"
    by (simp add: celula_pivot_def)
  show ?thesis
    using assms by (simp add: pivot_table_def Let_def grade_def a b c d cong: map_cong)
qed

lemma resumo_grade:
  assumes "''Total'' \<notin> fst ` set dados" "''Total'' \<notin> (\<lambda>d. fst (snd d)) ` set dados"
  shows "resumo aggfunc dados =
     Inr (grade [''X'', ''Y'', ''Z'', ''Total'']
                (sort (remdups (map (\<lambda>d. fst (snd d)) dados)) @ [''Total''])
                (\<lambda>r c. if r = ''Total'' \<or> r \<in> fst ` set dados then celula_pivot aggfunc dados r c else NaN))"
  by (simp add: resumo_def pivot_table_grade [OF assms] reindex_grade rotular_total_grade)

lemma resumo_tabela:
  fixes tab :: "linha_tabela list" and v :: "linha_tabela \<Rightarrow> 'v"
  assumes "\<forall>t\<in>set tab. t_criticidade t \<noteq> ''Total'' \<and> t_curva t \<noteq> ''Total''"
  shows "resumo aggfunc (map (\<lambda>t. (t_criticidade t, t_curva t, v t)) tab) =
     Inr (grade [''X'', ''Y'', ''Z'', ''Total'']
                (sort (remdups (map t_curva tab)) @ [''Total''])
                (\<lambda>r c. if r = ''Total'' \<or> r \<in> t_criticidade ` set tab
                       then celula_pivot aggfunc (map (\<lambda>t. (t_criticidade t, t_curva t, v t)) tab) r c
                       else NaN))"
proof -
  let ?dados = "map (\<lambda>t. (t_criticidade t, t_curva t, v t)) tab"
  have a: "''Total'' \<notin> fst ` set ?dados" using assms by auto
  have b: "''Total'' \<notin> (\<lambda>d. fst (snd d)) ` set ?dados" using assms by auto
  have c: "map (\<lambda>d. fst (snd d)) ?dados = map t_curva tab" by simp
  have d: "fst ` set ?dados = t_criticidade ` set tab" by (auto simp: image_iff)
  show ?thesis unfolding resumo_grade [OF a b] c d ..
qed

lemma calcular_ok:
  assumes "rs \<noteq> []" "\<forall>r\<in>set rs. criticidade r \<noteq> ''Total'' \<and> curva r \<noteq> ''Total''"
  obtains out where "calcular ppf M rs = Inr out"
    "resultado out = map metricas (map (\<lambda>r. fst (passo ppf M r)) rs)"
    "avisos out = concat (map (\<lambda>r. snd (passo ppf M r)) rs)"
    "tabela out = map linha_da_tabela (resultado out)"
    "excel out = tabela out"
    "valor_atual out =
       agg_sum (list_all estoque_seguranca_int rs \<and> list_all valor_unit_int rs)
         (map (\<lambda>t. vezes (list_all estoque_seguranca_int rs \<and> list_all valor_unit_int rs)
                     (t_ss_atual t) (t_valor_unit t)) (tabela out))"
    "valor_novo out = agg_sum (list_all valor_unit_int rs) (map t_valor_ss (tabela out))"
    "matriz_valor out = grade [''X'', ''Y'', ''Z'', ''Total'']
        (sort (remdups (map t_curva (tabela out))) @ [''Total''])
        (\<lambda>r c. if r = ''Total'' \<or> r \<in> t_criticidade ` set (tabela out)
               then celula_pivot (agg_sum (list_all valor_unit_int rs)) (map (\<lambda>t. (t_criticidade t, t_curva t, t_valor_ss t)) (tabela out)) r c
               else NaN)"
    "matriz_cobertura out = grade [''X'', ''Y'', ''Z'', ''Total'']
        (sort (remdups (map t_curva (tabela out))) @ [''Total''])
        (\<lambda>r c. if r = ''Total'' \<or> r \<in> t_criticidade ` set (tabela out)
               then celula_pivot agg_mean (map (\<lambda>t. (t_criticidade t, t_curva t, t_cob_calculada t)) (tabela out)) r c
               else NaN)"
    "matriz_count out = grade [''X'', ''Y'', ''Z'', ''Total'']
        (sort (remdups (map t_curva (tabela out))) @ [''Total''])
        (\<lambda>r c. if r = ''Total'' \<or> r \<in> t_criticidade ` set (tabela out)
               then celula_pivot agg_count (map (\<lambda>t. (t_criticidade t, t_curva t, t_sku t)) (tabela out)) r c
               else NaN)"
proof -
  let ?cs = "map (\<lambda>r. fst (passo ppf M r)) rs"
  let ?tab = "map linha_da_tabela (map metricas ?cs)"
  have it: "iterrows ppf M rs [] = (?cs, concat (map (\<lambda>r. snd (passo ppf M r)) rs))"
    using iterrows_fst [of ppf M rs "[]"] iterrows_snd [of ppf M rs "[]"]
    by (simp add: prod_eq_iff)
  have ent: "entrada (fst (passo ppf M r)) = r" for r
    by (simp add: passo_def case_prod_beta)
  have tc: "t_criticidade (linha_da_tabela (metricas c)) = criticidade (entrada c)"
           "t_curva (linha_da_tabela (metricas c)) = curva (entrada c)" for c
    by (simp_all add: linha_da_tabela_def metricas_def Let_def)
  have nt: "\<forall>t\<in>set ?tab. t_criticidade t \<noteq> ''Total'' \<and> t_curva t \<noteq> ''Total''"
    using assms(2) by (simp add: tc ent)
  note rv = resumo_tabela [OF nt, of "agg_sum (list_all valor_unit_int rs)" t_valor_ss]
  note rc = resumo_tabela [OF nt, of agg_mean t_cob_calculada]
  note rn = resumo_tabela [OF nt, of agg_count t_sku]
  have if_ne: "(if rs = [] then a else b) = b" for a b :: "erro + saida"
    using assms(1) by simp
  show ?thesis
    by (rule that [OF _ _ _ _ _ _ _ _ _ _])
      (unfold calcular_def it prod.case Let_def rv rc rn sum.case if_ne, rule refl,
       simp_all only: saida.simps)
qed

lemma carregar_sem_total:
  "r \<in> set (filter sel (carregar df)) \<Longrightarrow> criticidade r \<noteq> ''Total'' \<and> curva r \<noteq> ''Total''"
  by (auto simp: carregar_def padronizar_def str_upper_not_Total)

lemma passo_entrada: "entrada (fst (passo ppf M r)) = r"
  by (simp add: passo_def case_prod_beta)

lemma passo_nivel:
  "nivel (fst (passo ppf M r)) = (if mapeada M r then m_loc M (criticidade r) (curva r) else 95)"
  by (simp add: passo_def resolver_def mapeada_def Let_def)

lemma passo_z: "z (fst (passo ppf M r)) = ppf (real_of_int (nivel (fst (passo ppf M r))) / 100)"
  by (simp add: passo_def resolver_def Let_def)

lemma passo_avisos: "snd (passo ppf M r) = (if mapeada M r then [] else [aviso r])"
  by (simp add: passo_def resolver_def mapeada_def Let_def)

lemma passo_ss:
  "ss_calculado (fst (passo ppf M r)) = ss_calc (z (fst (passo ppf M r))) r"
  "ss_arredondado (fst (passo ppf M r)) = ceil_astype_int (ss_calculado (fst (passo ppf M r)))"
  by (simp_all add: passo_def case_prod_beta)

lemma calc_metricas: "calc (metricas c) = c"
  by (simp add: metricas_def Let_def)

lemma concat_avisos:
  "concat (map (\<lambda>r. snd (passo ppf M r)) rs) = map aviso (filter (\<lambda>r. \<not> mapeada M r) rs)"
  by (induction rs) (simp_all add: passo_avisos)

lemma carregar_exemplo: "filter todas (carregar [linha_exemplo]) = [linha_exemplo]"
  by (simp add: todas_def carregar_def padronizar_def linha_exemplo_def str_upper_def upper_char_def)

lemma resultado_de:
  assumes "filter sel (carregar df) \<noteq> []"
  obtains out where "app ppf M sel df = Inr out"
    "resultado out = map metricas (map (\<lambda>r. fst (passo ppf M r)) (filter sel (carregar df)))"
    "avisos out = map aviso (filter (\<lambda>r. \<not> mapeada M r) (filter sel (carregar df)))"
    "map (\<lambda>x. entrada (calc x)) (resultado out) = filter sel (carregar df)"
proof -
  let ?rs = "filter sel (carregar df)"
  have nt: "\<forall>r\<in>set ?rs. criticidade r \<noteq> ''Total'' \<and> curva r \<noteq> ''Total''"
    using carregar_sem_total by blast
  from calcular_ok [OF assms nt, of ppf M] obtain out where
    o: "calcular ppf M ?rs = Inr out"
    and r: "resultado out = map metricas (map (\<lambda>r. fst (passo ppf M r)) ?rs)"
    and a: "avisos out = concat (map (\<lambda>r. snd (passo ppf M r)) ?rs)"
    by blast
  have "map (\<lambda>x. entrada (calc x)) (resultado out) = ?rs"
    unfolding r by (simp add: o_def calc_metricas passo_entrada)
  then show ?thesis using that o r a unfolding app_def concat_avisos by blast
qed

lemmas exemplos_defs =
  linha_exemplo_def linha_curva_d_def linha_sem_ss_def linha_lt_negativo_def
  linha_crit_w_def linha_crit_y_def linha_crit_z_def linha_milesimos_def

subsection \<open>Service level of a mapped record\<close>

text \<open>
  C2. For every record of a calculation whose criticality is a row label and whose curve
  is a column label of the matrix, the stored level is the cell of the matrix at that
  pair, whatever its value, and the stored quantile is \<open>ppf\<close> at that cell
  divided by 100. The calculation of a non-empty selection succeeds and has one result
  per selected record, in order.
\<close>

theorem nivel_mapeado:
  assumes "filter sel (carregar df) \<noteq> []"
  shows "\<exists>out. app ppf M sel df = Inr out \<and>
     map (\<lambda>x. entrada (calc x)) (resultado out) = filter sel (carregar df) \<and>
     (\<forall>x\<in>set (resultado out). mapeada M (entrada (calc x)) \<longrightarrow>
        nivel (calc x) = m_loc M (criticidade (entrada (calc x))) (curva (entrada (calc x))) \<and>
        z (calc x) =
          ppf (real_of_int (m_loc M (criticidade (entrada (calc x))) (curva (entrada (calc x)))) / 100))"
proof -
  let ?rs = "filter sel (carregar df)"
  have nt: "\<forall>r\<in>set ?rs. criticidade r \<noteq> ''Total'' \<and> curva r \<noteq> ''Total''"
    using carregar_sem_total by blast
  from calcular_ok [OF assms nt, of ppf M] obtain out where
    o: "calcular ppf M ?rs = Inr out"
    and r: "resultado out = map metricas (map (\<lambda>r. fst (passo ppf M r)) ?rs)"
    by blast
  have 1: "map (\<lambda>x. entrada (calc x)) (resultado out) = ?rs"
    unfolding r by (simp add: o_def calc_metricas passo_entrada)
  have 2: "nivel (calc x) = m_loc M (criticidade (entrada (calc x))) (curva (entrada (calc x))) \<and>
        z (calc x) =
          ppf (real_of_int (m_loc M (criticidade (entrada (calc x))) (curva (entrada (calc x)))) / 100)"
    if "x \<in> set (resultado out)" "mapeada M (entrada (calc x))" for x
  proof -
    from that(1) obtain r0 where x: "x = metricas (fst (passo ppf M r0))"
      unfolding r by auto
    have e: "entrada (calc x) = r0" by (simp add: x calc_metricas passo_entrada)
    have n: "nivel (calc x) = m_loc M (criticidade r0) (curva r0)"
      using that(2) unfolding e by (simp add: x calc_metricas passo_nivel)
    have "z (calc x) = ppf (real_of_int (nivel (calc x)) / 100)"
      by (simp add: x calc_metricas passo_z [symmetric])
    then show ?thesis using n e by simp
  qed
  show ?thesis using o 1 2 unfolding app_def by blast
qed

theorem nivel_mapeado_witness:
  "\<exists>out. app ppf_exemplo matriz_exemplo todas [linha_exemplo] = Inr out \<and>
     map (\<lambda>x. nivel (calc x)) (resultado out) = [98] \<and>
     map (\<lambda>x. z (calc x)) (resultado out) = [20537 / 10000]"
proof -
  have h: "filter todas (carregar [linha_exemplo]) \<noteq> []"
    by (simp add: carregar_exemplo)
  from nivel_mapeado [OF h, of ppf_exemplo matriz_exemplo] obtain out where
    a: "app ppf_exemplo matriz_exemplo todas [linha_exemplo] = Inr out \<and>
     map (\<lambda>x. entrada (calc x)) (resultado out) = filter todas (carregar [linha_exemplo]) \<and>
     (\<forall>x\<in>set (resultado out). mapeada matriz_exemplo (entrada (calc x)) \<longrightarrow>
        nivel (calc x) = m_loc matriz_exemplo (criticidade (entrada (calc x))) (curva (entrada (calc x))) \<and>
        z (calc x) = ppf_exemplo (real_of_int (m_loc matriz_exemplo (criticidade (entrada (calc x))) (curva (entrada (calc x)))) / 100))"
    ..
  note o = a [THEN conjunct1]
  note e = a [THEN conjunct2, THEN conjunct1, unfolded carregar_exemplo]
  note p = a [THEN conjunct2, THEN conjunct2]
  from e obtain x where x: "resultado out = [x]" "entrada (calc x) = linha_exemplo"
    by (auto simp: map_eq_Cons_conv)
  have m: "mapeada matriz_exemplo linha_exemplo"
    by (simp add: mapeada_def matriz_exemplo_def matriz_default_def linha_exemplo_def)
  have "nivel (calc x) = 98 \<and> z (calc x) = 20537 / 10000"
    using p m x by (simp add: matriz_exemplo_def matriz_default_def linha_exemplo_def ppf_exemplo_def)
  then show ?thesis using o x by simp
qed

subsection \<open>Service level of an unmapped record\<close>

text \<open>The warning contains the SKU, the criticality and the curve of its record.\<close>

lemma aviso_nomeia:
  "sublist (sku r) (aviso r)" "sublist (criticidade r) (aviso r)" "sublist (curva r) (aviso r)"
proof -
  show "sublist (sku r) (aviso r)"
    unfolding sublist_def aviso_def by (rule exI [of _ "''SKU ''"]) auto
  show "sublist (criticidade r) (aviso r)"
    unfolding sublist_def aviso_def
    by (rule exI [of _ "''SKU '' @ sku r @ '': Criticidade '' @ [CHR 0x27]"]) auto
  show "sublist (curva r) (aviso r)"
    unfolding sublist_def aviso_def
    by (rule exI [of _ "''SKU '' @ sku r @ '': Criticidade '' @ [CHR 0x27] @ criticidade r
        @ [CHR 0x27] @ '' ou Curva '' @ [CHR 0x27]"]) auto
qed

text \<open>
  C3. For every record of a calculation whose criticality is not a row label or whose
  curve is not a column label of the matrix, the stored level is 95, the stored quantile
  is \<open>ppf\<close> at 0.95, and the warning of that record, which contains its SKU, its
  criticality and its curve, is among the warnings shown. The calculation succeeds and
  the record has its result.
\<close>

theorem nivel_padrao_e_aviso:
  assumes "filter sel (carregar df) \<noteq> []"
  shows "\<exists>out. app ppf M sel df = Inr out \<and>
     map (\<lambda>x. entrada (calc x)) (resultado out) = filter sel (carregar df) \<and>
     (\<forall>x\<in>set (resultado out). \<not> mapeada M (entrada (calc x)) \<longrightarrow>
        nivel (calc x) = 95 \<and> z (calc x) = ppf (95 / 100) \<and>
        aviso (entrada (calc x)) \<in> set (avisos out) \<and>
        sublist (sku (entrada (calc x))) (aviso (entrada (calc x))) \<and>
        sublist (criticidade (entrada (calc x))) (aviso (entrada (calc x))) \<and>
        sublist (curva (entrada (calc x))) (aviso (entrada (calc x))))"
proof -
  from resultado_de [OF assms, of ppf M] obtain out where
    o: "app ppf M sel df = Inr out"
    and r: "resultado out = map metricas (map (\<lambda>r. fst (passo ppf M r)) (filter sel (carregar df)))"
    and a: "avisos out = map aviso (filter (\<lambda>r. \<not> mapeada M r) (filter sel (carregar df)))"
    and e: "map (\<lambda>x. entrada (calc x)) (resultado out) = filter sel (carregar df)"
    by blast
  have "nivel (calc x) = 95 \<and> z (calc x) = ppf (95 / 100) \<and>
        aviso (entrada (calc x)) \<in> set (avisos out)"
    if "x \<in> set (resultado out)" "\<not> mapeada M (entrada (calc x))" for x
  proof -
    from that(1) obtain r0 where r0: "r0 \<in> set (filter sel (carregar df))"
      and x: "x = metricas (fst (passo ppf M r0))"
      unfolding r by auto
    have en: "entrada (calc x) = r0" by (simp add: x calc_metricas passo_entrada)
    have n: "nivel (calc x) = 95"
      using that(2) unfolding en by (simp add: x calc_metricas passo_nivel)
    have "z (calc x) = ppf (real_of_int (nivel (calc x)) / 100)"
      by (simp add: x calc_metricas passo_z [symmetric])
    then have zz: "z (calc x) = ppf (95 / 100)" unfolding n by simp
    have "aviso r0 \<in> set (avisos out)"
      unfolding a using r0 that(2) en by auto
    then show ?thesis using n zz en by simp
  qed
  then show ?thesis using o e aviso_nomeia by blast
qed

theorem nivel_padrao_e_aviso_witness:
  "\<exists>out. app ppf_exemplo matriz_default todas [linha_curva_d] = Inr out \<and>
     map (\<lambda>x. nivel (calc x)) (resultado out) = [95] \<and>
     map (\<lambda>x. z (calc x)) (resultado out) = [16449 / 10000] \<and>
     aviso linha_curva_d \<in> set (avisos out)"
proof -
  have c: "filter todas (carregar [linha_curva_d]) = [linha_curva_d]"
    by (simp add: todas_def carregar_def padronizar_def exemplos_defs str_upper_def upper_char_def)
  then have h: "filter todas (carregar [linha_curva_d]) \<noteq> []" by simp
  from nivel_padrao_e_aviso [OF h, of ppf_exemplo matriz_default] obtain out where
    a: "app ppf_exemplo matriz_default todas [linha_curva_d] = Inr out \<and>
     map (\<lambda>x. entrada (calc x)) (resultado out) = filter todas (carregar [linha_curva_d]) \<and>
     (\<forall>x\<in>set (resultado out). \<not> mapeada matriz_default (entrada (calc x)) \<longrightarrow>
        nivel (calc x) = 95 \<and> z (calc x) = ppf_exemplo (95 / 100) \<and>
        aviso (entrada (calc x)) \<in> set (avisos out) \<and>
        sublist (sku (entrada (calc x))) (aviso (entrada (calc x))) \<and>
        sublist (criticidade (entrada (calc x))) (aviso (entrada (calc x))) \<and>
        sublist (curva (entrada (calc x))) (aviso (entrada (calc x))))"
    ..
  note o = a [THEN conjunct1]
  note e = a [THEN conjunct2, THEN conjunct1, unfolded c]
  note p = a [THEN conjunct2, THEN conjunct2]
  from e obtain x where x: "resultado out = [x]" "entrada (calc x) = linha_curva_d"
    by (auto simp: map_eq_Cons_conv)
  have m: "\<not> mapeada matriz_default linha_curva_d"
    by (simp add: mapeada_def matriz_default_def linha_curva_d_def linha_exemplo_def)
  have "nivel (calc x) = 95 \<and> z (calc x) = 16449 / 10000 \<and> aviso linha_curva_d \<in> set (avisos out)"
    using p m x by (simp add: ppf_exemplo_def)
  then show ?thesis using o x by simp
qed

subsection \<open>Level and quantile agree\<close>

text \<open>
  C9. In every result of a calculation the stored quantile is \<open>ppf\<close> at the stored
  level divided by 100, in the branch of the matrix as in the branch of the default.
\<close>

theorem z_consistente:
  assumes "filter sel (carregar df) \<noteq> []"
  shows "\<exists>out. app ppf M sel df = Inr out \<and>
     map (\<lambda>x. entrada (calc x)) (resultado out) = filter sel (carregar df) \<and>
     (\<forall>x\<in>set (resultado out).
        z (calc x) = ppf (real_of_int (nivel (calc x)) / 100) \<and>
        nivel (calc x) =
          (if mapeada M (entrada (calc x))
           then m_loc M (criticidade (entrada (calc x))) (curva (entrada (calc x))) else 95))"
proof -
  from resultado_de [OF assms, of ppf M] obtain out where
    o: "app ppf M sel df = Inr out"
    and r: "resultado out = map metricas (map (\<lambda>r. fst (passo ppf M r)) (filter sel (carregar df)))"
    and e: "map (\<lambda>x. entrada (calc x)) (resultado out) = filter sel (carregar df)"
    by blast
  have "z (calc x) = ppf (real_of_int (nivel (calc x)) / 100) \<and>
        nivel (calc x) =
          (if mapeada M (entrada (calc x))
           then m_loc M (criticidade (entrada (calc x))) (curva (entrada (calc x))) else 95)"
    if "x \<in> set (resultado out)" for x
  proof -
    from that obtain r0 where x: "x = metricas (fst (passo ppf M r0))"
      unfolding r by auto
    show ?thesis
      unfolding x calc_metricas passo_entrada
      using passo_z [of ppf M r0] passo_nivel [of ppf M r0] by simp
  qed
  then show ?thesis using o e by blast
qed

theorem z_consistente_witness:
  "\<exists>out x y. app ppf_exemplo matriz_exemplo todas [linha_exemplo, linha_curva_d] = Inr out \<and>
     resultado out = [x, y] \<and>
     nivel (calc x) = 98 \<and> z (calc x) = ppf_exemplo (98 / 100) \<and>
     nivel (calc y) = 95 \<and> z (calc y) = ppf_exemplo (95 / 100)"
proof -
  have c: "filter todas (carregar [linha_exemplo, linha_curva_d]) = [linha_exemplo, linha_curva_d]"
    by (simp add: todas_def carregar_def padronizar_def exemplos_defs str_upper_def upper_char_def)
  then have h: "filter todas (carregar [linha_exemplo, linha_curva_d]) \<noteq> []" by simp
  from z_consistente [OF h, of ppf_exemplo matriz_exemplo] obtain out where
    a: "app ppf_exemplo matriz_exemplo todas [linha_exemplo, linha_curva_d] = Inr out \<and>
     map (\<lambda>x. entrada (calc x)) (resultado out) = filter todas (carregar [linha_exemplo, linha_curva_d]) \<and>
     (\<forall>x\<in>set (resultado out).
        z (calc x) = ppf_exemplo (real_of_int (nivel (calc x)) / 100) \<and>
        nivel (calc x) =
          (if mapeada matriz_exemplo (entrada (calc x))
           then m_loc matriz_exemplo (criticidade (entrada (calc x))) (curva (entrada (calc x))) else 95))"
    ..
  note o = a [THEN conjunct1]
  note e = a [THEN conjunct2, THEN conjunct1, unfolded c]
  note p = a [THEN conjunct2, THEN conjunct2]
  from e obtain x y where x: "resultado out = [x, y]" "entrada (calc x) = linha_exemplo"
    "entrada (calc y) = linha_curva_d"
    by (auto simp: map_eq_Cons_conv)
  have m: "mapeada matriz_exemplo linha_exemplo" "\<not> mapeada matriz_exemplo linha_curva_d"
    by (simp_all add: mapeada_def matriz_exemplo_def matriz_default_def linha_curva_d_def linha_exemplo_def)
  have nx: "nivel (calc x) = 98" and ny: "nivel (calc y) = 95"
    using p m x by (simp_all add: matriz_exemplo_def matriz_default_def linha_exemplo_def)
  have "z (calc x) = ppf_exemplo (98 / 100)" "z (calc y) = ppf_exemplo (95 / 100)"
    using p x nx ny by simp_all
  then show ?thesis using o x nx ny by blast
qed

subsection \<open>Percentage difference\<close>

lemma dif_pct_eq:
  "dif_pct ss atual =
     (if 0 < atual then Fin ((real_of_int ss / atual - 1) * 100) else NaN)"
  by (simp add: dif_pct_def np_where_def fl_div_def)

text \<open>
  C4. In every result of a calculation the percentage difference is
  \<open>(SS_Arredondado / current - 1) * 100\<close> where the current safety stock is positive, and
  NaN otherwise: not 0 and not an infinity. The quotient by a current safety stock of 0
  is computed without an exception and dropped.
\<close>

theorem diferenca_pct_definida:
  assumes "filter sel (carregar df) \<noteq> []"
  shows "\<exists>out. app ppf M sel df = Inr out \<and>
     map (\<lambda>x. entrada (calc x)) (resultado out) = filter sel (carregar df) \<and>
     (\<forall>x\<in>set (resultado out).
        (0 < estoque_seguranca (entrada (calc x)) \<longrightarrow>
           diferenca_pct x =
             Fin ((real_of_int (ss_arredondado (calc x)) / estoque_seguranca (entrada (calc x)) - 1) * 100)) \<and>
        (estoque_seguranca (entrada (calc x)) \<le> 0 \<longrightarrow>
           diferenca_pct x = NaN \<and> diferenca_pct x \<noteq> Fin 0 \<and>
           diferenca_pct x \<noteq> PInf \<and> diferenca_pct x \<noteq> NInf))"
proof -
  from resultado_de [OF assms, of ppf M] obtain out where
    o: "app ppf M sel df = Inr out"
    and r: "resultado out = map metricas (map (\<lambda>r. fst (passo ppf M r)) (filter sel (carregar df)))"
    and e: "map (\<lambda>x. entrada (calc x)) (resultado out) = filter sel (carregar df)"
    by blast
  have "(0 < estoque_seguranca (entrada (calc x)) \<longrightarrow>
           diferenca_pct x =
             Fin ((real_of_int (ss_arredondado (calc x)) / estoque_seguranca (entrada (calc x)) - 1) * 100)) \<and>
        (estoque_seguranca (entrada (calc x)) \<le> 0 \<longrightarrow>
           diferenca_pct x = NaN \<and> diferenca_pct x \<noteq> Fin 0 \<and>
           diferenca_pct x \<noteq> PInf \<and> diferenca_pct x \<noteq> NInf)"
    if "x \<in> set (resultado out)" for x
  proof -
    from that obtain c where x: "x = metricas c" unfolding r by auto
    have "diferenca_pct x = dif_pct (ss_arredondado c) (estoque_seguranca (entrada c))"
      by (simp add: x metricas_def Let_def)
    then show ?thesis by (simp add: x calc_metricas dif_pct_eq)
  qed
  then show ?thesis using o e by blast
qed

theorem diferenca_pct_definida_witness:
  "\<exists>out x y. app ppf_exemplo matriz_exemplo todas [linha_exemplo, linha_sem_ss] = Inr out \<and>
     resultado out = [x, y] \<and>
     diferenca_pct x = Fin ((real_of_int (ss_arredondado (calc x)) / 100 - 1) * 100) \<and>
     diferenca_pct y = NaN"
proof -
  have c: "filter todas (carregar [linha_exemplo, linha_sem_ss]) = [linha_exemplo, linha_sem_ss]"
    by (simp add: todas_def carregar_def padronizar_def exemplos_defs str_upper_def upper_char_def)
  then have h: "filter todas (carregar [linha_exemplo, linha_sem_ss]) \<noteq> []" by simp
  from diferenca_pct_definida [OF h, of ppf_exemplo matriz_exemplo] obtain out where
    a: "app ppf_exemplo matriz_exemplo todas [linha_exemplo, linha_sem_ss] = Inr out \<and>
     map (\<lambda>x. entrada (calc x)) (resultado out) = filter todas (carregar [linha_exemplo, linha_sem_ss]) \<and>
     (\<forall>x\<in>set (resultado out).
        (0 < estoque_seguranca (entrada (calc x)) \<longrightarrow>
           diferenca_pct x =
             Fin ((real_of_int (ss_arredondado (calc x)) / estoque_seguranca (entrada (calc x)) - 1) * 100)) \<and>
        (estoque_seguranca (entrada (calc x)) \<le> 0 \<longrightarrow>
           diferenca_pct x = NaN \<and> diferenca_pct x \<noteq> Fin 0 \<and>
           diferenca_pct x \<noteq> PInf \<and> diferenca_pct x \<noteq> NInf))"
    ..
  note o = a [THEN conjunct1]
  note e = a [THEN conjunct2, THEN conjunct1, unfolded c]
  note p = a [THEN conjunct2, THEN conjunct2]
  from e obtain x y where x: "resultado out = [x, y]" "entrada (calc x) = linha_exemplo"
    "entrada (calc y) = linha_sem_ss"
    by (auto simp: map_eq_Cons_conv)
  have "diferenca_pct x = Fin ((real_of_int (ss_arredondado (calc x)) / 100 - 1) * 100)"
    "diferenca_pct y = NaN"
    using p x by (simp_all add: linha_exemplo_def linha_sem_ss_def)
  then show ?thesis using o x by blast
qed

subsection \<open>Signs of the variance terms\<close>

lemma ss_calc_fin:
  assumes "0 \<le> var_dem r + var_lt r"
  shows "ss_calc zv r = Fin (zv * sqrt (var_dem r + var_lt r))"
  using assms by (simp add: ss_calc_def np_sqrt_def)






subsection \<open>The safety-stock formula\<close>

text \<open>
  The worked example: the radicand is 3 * 400 + 10000 * 0.25 = 3700, and with a quantile
  between 2.0537 and 2.0538 the product with its root lies between 124 and 125.
\<close>

lemma ceil_exemplo:
  assumes "20537 / 10000 \<le> zv" "zv \<le> 20538 / 10000"
  shows "\<lceil>zv * sqrt 3700\<rceil> = 125"
proof -
  have lo: "6082 / 100 < sqrt 3700"
    by (rule real_less_rsqrt) (simp add: power2_eq_square)
  have hi: "sqrt 3700 < 6083 / 100"
    by (rule real_less_lsqrt) (simp_all add: power2_eq_square)
  have "20537 / 10000 * (6082 / 100) \<le> zv * sqrt 3700"
    using assms(1) lo by (intro mult_mono) simp_all
  then have a: "124 < zv * sqrt 3700" by simp
  have "zv * sqrt 3700 \<le> 20538 / 10000 * (6083 / 100)"
    using assms lo hi by (intro mult_mono) simp_all
  then have b: "zv * sqrt 3700 \<le> 125" by simp
  show ?thesis using a b by (intro ceiling_unique) simp_all
qed


lemma ceil_no_int64:
  assumes "- (2 ^ 63) \<le> \<lceil>a\<rceil>" "\<lceil>a\<rceil> < 2 ^ 63"
  shows "ceil_astype_int (Fin a) = \<lceil>a\<rceil>"
  using assms by simp




subsection \<open>What the summary matrices hold\<close>

lemma grupo_map:
  "grupo P (map (\<lambda>t. (k t, c t, v t)) tab) = map v (filter (\<lambda>t. P (k t, c t, v t)) tab)"
  by (induction tab) (simp_all add: grupo_def)

lemma matrizes_de:
  assumes "filter sel (carregar df) \<noteq> []"
  obtains out where "app ppf M sel df = Inr out"
    "tabela out = map linha_da_tabela (resultado out)"
    "length (tabela out) = length (filter sel (carregar df))"
    "\<forall>t\<in>set (tabela out). t_criticidade t \<noteq> ''Total'' \<and> t_curva t \<noteq> ''Total''"
    "resumo (agg_sum (list_all valor_unit_int (filter sel (carregar df)))) (map (\<lambda>t. (t_criticidade t, t_curva t, t_valor_ss t)) (tabela out))
       = Inr (matriz_valor out)"
    "resumo agg_mean (map (\<lambda>t. (t_criticidade t, t_curva t, t_cob_calculada t)) (tabela out))
       = Inr (matriz_cobertura out)"
    "resumo agg_count (map (\<lambda>t. (t_criticidade t, t_curva t, t_sku t)) (tabela out))
       = Inr (matriz_count out)"
proof -
  let ?rs = "filter sel (carregar df)"
  have nt: "\<forall>r\<in>set ?rs. criticidade r \<noteq> ''Total'' \<and> curva r \<noteq> ''Total''"
    using carregar_sem_total by blast
  from calcular_ok [OF assms nt, of ppf M] obtain out where
    o: "calcular ppf M ?rs = Inr out"
    and r: "resultado out = map metricas (map (\<lambda>r. fst (passo ppf M r)) ?rs)"
    and t: "tabela out = map linha_da_tabela (resultado out)"
    and mv: "matriz_valor out = grade [''X'', ''Y'', ''Z'', ''Total'']
        (sort (remdups (map t_curva (tabela out))) @ [''Total''])
        (\<lambda>r c. if r = ''Total'' \<or> r \<in> t_criticidade ` set (tabela out)
               then celula_pivot (agg_sum (list_all valor_unit_int ?rs)) (map (\<lambda>t. (t_criticidade t, t_curva t, t_valor_ss t)) (tabela out)) r c
               else NaN)"
    and mc: "matriz_cobertura out = grade [''X'', ''Y'', ''Z'', ''Total'']
        (sort (remdups (map t_curva (tabela out))) @ [''Total''])
        (\<lambda>r c. if r = ''Total'' \<or> r \<in> t_criticidade ` set (tabela out)
               then celula_pivot agg_mean (map (\<lambda>t. (t_criticidade t, t_curva t, t_cob_calculada t)) (tabela out)) r c
               else NaN)"
    and mn: "matriz_count out = grade [''X'', ''Y'', ''Z'', ''Total'']
        (sort (remdups (map t_curva (tabela out))) @ [''Total''])
        (\<lambda>r c. if r = ''Total'' \<or> r \<in> t_criticidade ` set (tabela out)
               then celula_pivot agg_count (map (\<lambda>t. (t_criticidade t, t_curva t, t_sku t)) (tabela out)) r c
               else NaN)"
    by blast
  have tc: "t_criticidade (linha_da_tabela (metricas c)) = criticidade (entrada c)"
           "t_curva (linha_da_tabela (metricas c)) = curva (entrada c)" for c
    by (simp_all add: linha_da_tabela_def metricas_def Let_def)
  have n: "\<forall>t\<in>set (tabela out). t_criticidade t \<noteq> ''Total'' \<and> t_curva t \<noteq> ''Total''"
    unfolding t r using nt by (simp add: tc passo_entrada)
  have l: "length (tabela out) = length ?rs" unfolding t r by simp
  have o': "app ppf M sel df = Inr out" using o by (simp add: app_def)
  show ?thesis
    by (rule that [OF o' t l n]) (simp_all only: resumo_tabela [OF n] mv mc mn)
qed

lemma loc_resumo:
  fixes tab :: "linha_tabela list" and v :: "linha_tabela \<Rightarrow> 'v"
  assumes "\<forall>t\<in>set tab. t_criticidade t \<noteq> ''Total'' \<and> t_curva t \<noteq> ''Total''"
    and "resumo aggfunc (map (\<lambda>t. (t_criticidade t, t_curva t, v t)) tab) = Inr m"
  shows "f_index m = [''X'', ''Y'', ''Z'', ''Total'']"
    and "f_columns m = sort (remdups (map t_curva tab)) @ [''Total'']"
    and "loc m ''Total'' ''Total'' = Some (Fin (aggfunc (map v tab)))"
    and "c \<in> t_curva ` set tab \<Longrightarrow>
          loc m ''Total'' c = Some (Fin (aggfunc (map v (filter (\<lambda>t. t_curva t = c) tab))))"
    and "r \<noteq> ''Total'' \<Longrightarrow> r \<notin> set [''X'', ''Y'', ''Z''] \<Longrightarrow> loc m r c = None"
    and "r \<in> set [''X'', ''Y'', ''Z''] \<Longrightarrow> r \<notin> t_criticidade ` set tab \<Longrightarrow> c \<in> t_curva ` set tab \<Longrightarrow>
          loc m r c = Some NaN"
    and "r \<in> set [''X'', ''Y'', ''Z''] \<Longrightarrow> c \<noteq> ''Total'' \<Longrightarrow> c \<notin> t_curva ` set tab \<Longrightarrow>
          loc m r c = None"
    and "r \<in> set [''X'', ''Y'', ''Z''] \<Longrightarrow> r \<in> t_criticidade ` set tab \<Longrightarrow> c \<in> t_curva ` set tab \<Longrightarrow>
          loc m r c = Some (Fin (let g = map v (filter (\<lambda>t. t_criticidade t = r \<and> t_curva t = c) tab)
                                 in if g = [] then 0 else aggfunc g))"
proof -
  have m: "m = grade [''X'', ''Y'', ''Z'', ''Total'']
                (sort (remdups (map t_curva tab)) @ [''Total''])
                (\<lambda>r c. if r = ''Total'' \<or> r \<in> t_criticidade ` set tab
                       then celula_pivot aggfunc (map (\<lambda>t. (t_criticidade t, t_curva t, v t)) tab) r c
                       else NaN)"
    using assms(2) unfolding resumo_tabela [OF assms(1)] by simp
  show "f_index m = [''X'', ''Y'', ''Z'', ''Total'']" by (simp add: m grade_def)
  show "f_columns m = sort (remdups (map t_curva tab)) @ [''Total'']" by (simp add: m grade_def)
  show "loc m ''Total'' ''Total'' = Some (Fin (aggfunc (map v tab)))"
    by (simp add: m loc_grade celula_pivot_def grupo_map)
  show "loc m ''Total'' c = Some (Fin (aggfunc (map v (filter (\<lambda>t. t_curva t = c) tab))))"
    if "c \<in> t_curva ` set tab"
  proof -
    have "c \<noteq> ''Total''" using that assms(1) by auto
    then show ?thesis using that by (simp add: m loc_grade celula_pivot_def grupo_map)
  qed
  show "loc m r c = None" if "r \<noteq> ''Total''" "r \<notin> set [''X'', ''Y'', ''Z'']"
    using that by (simp add: m loc_grade)
  show "loc m r c = Some NaN"
    if "r \<in> set [''X'', ''Y'', ''Z'']" "r \<notin> t_criticidade ` set tab" "c \<in> t_curva ` set tab"
    using that by (auto simp add: m loc_grade)
  show "loc m r c = None"
    if "r \<in> set [''X'', ''Y'', ''Z'']" "c \<noteq> ''Total''" "c \<notin> t_curva ` set tab"
    using that by (simp add: m loc_grade)
  show "loc m r c = Some (Fin (let g = map v (filter (\<lambda>t. t_criticidade t = r \<and> t_curva t = c) tab)
                                 in if g = [] then 0 else aggfunc g))"
    if "r \<in> set [''X'', ''Y'', ''Z'']" "r \<in> t_criticidade ` set tab" "c \<in> t_curva ` set tab"
  proof -
    have "c \<noteq> ''Total''" using that assms(1) by auto
    moreover have "r \<noteq> ''Total''" using that by auto
    ultimately show ?thesis using that
      by (simp add: m loc_grade celula_pivot_def grupo_map Let_def)
  qed
qed

lemma chaves_da_tabela:
  "t_criticidade (linha_da_tabela x) = criticidade (entrada (calc x))"
  "t_curva (linha_da_tabela x) = curva (entrada (calc x))"
  by (simp_all add: linha_da_tabela_def Let_def)

lemma tabela_de:
  assumes "filter sel (carregar df) \<noteq> []"
  obtains out where "app ppf M sel df = Inr out"
    "length (resultado out) = length (filter sel (carregar df))"
    "map (\<lambda>t. (t_criticidade t, t_curva t)) (tabela out)
       = map (\<lambda>r. (criticidade r, curva r)) (filter sel (carregar df))"
    "\<forall>t\<in>set (tabela out). t_criticidade t \<noteq> ''Total'' \<and> t_curva t \<noteq> ''Total''"
    "resumo (agg_sum (list_all valor_unit_int (filter sel (carregar df)))) (map (\<lambda>t. (t_criticidade t, t_curva t, t_valor_ss t)) (tabela out))
       = Inr (matriz_valor out)"
    "resumo agg_mean (map (\<lambda>t. (t_criticidade t, t_curva t, t_cob_calculada t)) (tabela out))
       = Inr (matriz_cobertura out)"
    "resumo agg_count (map (\<lambda>t. (t_criticidade t, t_curva t, t_sku t)) (tabela out))
       = Inr (matriz_count out)"
proof -
  from matrizes_de [OF assms, of ppf M] obtain out where
    o: "app ppf M sel df = Inr out"
    and t: "tabela out = map linha_da_tabela (resultado out)"
    and l: "length (tabela out) = length (filter sel (carregar df))"
    and n: "\<forall>t\<in>set (tabela out). t_criticidade t \<noteq> ''Total'' \<and> t_curva t \<noteq> ''Total''"
    and mv: "resumo (agg_sum (list_all valor_unit_int (filter sel (carregar df)))) (map (\<lambda>t. (t_criticidade t, t_curva t, t_valor_ss t)) (tabela out))
       = Inr (matriz_valor out)"
    and mc: "resumo agg_mean (map (\<lambda>t. (t_criticidade t, t_curva t, t_cob_calculada t)) (tabela out))
       = Inr (matriz_cobertura out)"
    and mn: "resumo agg_count (map (\<lambda>t. (t_criticidade t, t_curva t, t_sku t)) (tabela out))
       = Inr (matriz_count out)"
    by blast
  from resultado_de [OF assms, of ppf M] obtain out' where
    o': "app ppf M sel df = Inr out'"
    and e: "map (\<lambda>x. entrada (calc x)) (resultado out') = filter sel (carregar df)"
    by blast
  have same: "out' = out" using o o' by simp
  have e2: "map (\<lambda>x. entrada (calc x)) (resultado out) = filter sel (carregar df)"
    using e same by simp
  have "map (\<lambda>t. (t_criticidade t, t_curva t)) (tabela out)
      = map (\<lambda>r. (criticidade r, curva r)) (map (\<lambda>x. entrada (calc x)) (resultado out))"
    unfolding t by (simp add: chaves_da_tabela)
  then have k: "map (\<lambda>t. (t_criticidade t, t_curva t)) (tabela out)
       = map (\<lambda>r. (criticidade r, curva r)) (filter sel (carregar df))"
    unfolding e2 .
  have l': "length (resultado out) = length (filter sel (carregar df))"
    using l t by simp
  show ?thesis by (rule that [OF o l' k n mv mc mn])
qed

text \<open>
  C6. In every calculation the cell of the count matrix at row 'Total' and column 'Total'
  is the number of records of that calculation.
\<close>

theorem contagem_total:
  assumes "filter sel (carregar df) \<noteq> []"
  shows "\<exists>out. app ppf M sel df = Inr out \<and>
     length (resultado out) = length (filter sel (carregar df)) \<and>
     loc (matriz_count out) ''Total'' ''Total''
       = Some (Fin (real (length (filter sel (carregar df)))))"
proof -
  from tabela_de [OF assms, of ppf M] obtain out where
    o: "app ppf M sel df = Inr out"
    and l: "length (resultado out) = length (filter sel (carregar df))"
    and k: "map (\<lambda>t. (t_criticidade t, t_curva t)) (tabela out)
       = map (\<lambda>r. (criticidade r, curva r)) (filter sel (carregar df))"
    and n: "\<forall>t\<in>set (tabela out). t_criticidade t \<noteq> ''Total'' \<and> t_curva t \<noteq> ''Total''"
    and mn: "resumo agg_count (map (\<lambda>t. (t_criticidade t, t_curva t, t_sku t)) (tabela out))
       = Inr (matriz_count out)"
    by blast
  have "length (tabela out) = length (filter sel (carregar df))"
    using arg_cong [OF k, of length] by simp
  then have "loc (matriz_count out) ''Total'' ''Total''
       = Some (Fin (real (length (filter sel (carregar df)))))"
    using loc_resumo(3) [OF n mn] by (simp add: agg_count_def)
  then show ?thesis using o l by blast
qed

theorem contagem_total_witness:
  "\<exists>out. app ppf_exemplo matriz_exemplo todas [linha_exemplo, linha_curva_d] = Inr out \<and>
     length (resultado out) = 2 \<and>
     loc (matriz_count out) ''Total'' ''Total'' = Some (Fin 2)"
proof -
  have c: "filter todas (carregar [linha_exemplo, linha_curva_d]) = [linha_exemplo, linha_curva_d]"
    by (simp add: todas_def carregar_def padronizar_def exemplos_defs str_upper_def upper_char_def)
  then have h: "filter todas (carregar [linha_exemplo, linha_curva_d]) \<noteq> []" by simp
  from contagem_total [OF h, of ppf_exemplo matriz_exemplo, unfolded c]
  show ?thesis by (simp add: eval_nat_numeral)
qed

text \<open>
  C7. The pivot table fills a combination without records with 0 only where its row and
  its column both occur among the records. With a single record, of criticality X and
  curve A, the row Y is added by \<open>reindex\<close>, which fills it with NaN, and no column B
  exists: in the three matrices the cell (Y, A) is NaN and the cell (X, B) is a KeyError.
\<close>

theorem linha_ausente_nan:
  "\<exists>out. app ppf M todas [linha_exemplo] = Inr out \<and>
     loc (matriz_valor out) ''Y'' ''A'' = Some NaN \<and>
     loc (matriz_cobertura out) ''Y'' ''A'' = Some NaN \<and>
     loc (matriz_count out) ''Y'' ''A'' = Some NaN \<and>
     loc (matriz_valor out) ''X'' ''B'' = None \<and>
     loc (matriz_cobertura out) ''X'' ''B'' = None \<and>
     loc (matriz_count out) ''X'' ''B'' = None"
proof -
  have h: "filter todas (carregar [linha_exemplo]) \<noteq> []" by (simp add: carregar_exemplo)
  from tabela_de [OF h, of ppf M] obtain out where
    o: "app ppf M todas [linha_exemplo] = Inr out"
    and k: "map (\<lambda>t. (t_criticidade t, t_curva t)) (tabela out)
       = map (\<lambda>r. (criticidade r, curva r)) (filter todas (carregar [linha_exemplo]))"
    and n: "\<forall>t\<in>set (tabela out). t_criticidade t \<noteq> ''Total'' \<and> t_curva t \<noteq> ''Total''"
    and mv: "resumo (agg_sum (list_all valor_unit_int (filter todas (carregar [linha_exemplo])))) (map (\<lambda>t. (t_criticidade t, t_curva t, t_valor_ss t)) (tabela out))
       = Inr (matriz_valor out)"
    and mc: "resumo agg_mean (map (\<lambda>t. (t_criticidade t, t_curva t, t_cob_calculada t)) (tabela out))
       = Inr (matriz_cobertura out)"
    and mn: "resumo agg_count (map (\<lambda>t. (t_criticidade t, t_curva t, t_sku t)) (tabela out))
       = Inr (matriz_count out)"
    by blast
  from k obtain t where t: "tabela out = [t]" "t_criticidade t = ''X''" "t_curva t = ''A''"
    unfolding carregar_exemplo by (auto simp: map_eq_Cons_conv linha_exemplo_def)
  have y: "''Y'' \<in> set [''X'', ''Y'', ''Z'']" "''Y'' \<notin> t_criticidade ` set (tabela out)"
    "''A'' \<in> t_curva ` set (tabela out)"
    by (simp_all add: t)
  have x: "''X'' \<in> set [''X'', ''Y'', ''Z'']" "''B'' \<noteq> ''Total''"
    "''B'' \<notin> t_curva ` set (tabela out)"
    by (simp_all add: t)
  show ?thesis
    by (intro exI [of _ out] conjI o
        loc_resumo(6) [OF n mv y] loc_resumo(6) [OF n mc y] loc_resumo(6) [OF n mn y]
        loc_resumo(7) [OF n mv x] loc_resumo(7) [OF n mc x] loc_resumo(7) [OF n mn x])
qed

subsection \<open>Rounding to two decimals\<close>


lemma colunas_da_tabela:
  "t_valor_ss (linha_da_tabela x) = round2 (valor_ss_calculado x)"
  "t_valor_unit (linha_da_tabela x) = round2 (valor_unit (entrada (calc x)))"
  "t_ss_atual (linha_da_tabela x) = round2 (estoque_seguranca (entrada (calc x)))"
  "t_cob_calculada (linha_da_tabela x) = round2 (cobertura_calculada_meses x)"
  by (simp_all add: linha_da_tabela_def Let_def)

lemma colunas_do_resultado:
  "valor_ss_calculado (metricas c) =
     (if valor_unit_int (entrada c)
      then real_of_int (((ss_arredondado c * \<lfloor>valor_unit (entrada c)\<rfloor>) + 2 ^ 63) mod 2 ^ 64 - 2 ^ 63)
      else real_of_int (ss_arredondado c) * valor_unit (entrada c))"
  "cobertura_calculada_meses (metricas c) =
     (if 0 < consumo_medio (entrada c)
      then real_of_int (ss_arredondado c) / consumo_medio (entrada c) else 0)"
  by (simp_all add: metricas_def Let_def vezes_def wrap64_def cobertura_def)

subsection \<open>The outputs of a calculation\<close>

lemma saida_de:
  assumes "filter sel (carregar df) \<noteq> []"
  obtains out where "app ppf M sel df = Inr out"
    "resultado out = map metricas (map (\<lambda>r. fst (passo ppf M r)) (filter sel (carregar df)))"
    "map (\<lambda>x. entrada (calc x)) (resultado out) = filter sel (carregar df)"
    "tabela out = map linha_da_tabela (resultado out)"
    "excel out = tabela out"
    "valor_atual out =
       agg_sum (list_all estoque_seguranca_int (filter sel (carregar df))
                \<and> list_all valor_unit_int (filter sel (carregar df)))
         (map (\<lambda>t. vezes (list_all estoque_seguranca_int (filter sel (carregar df))
                           \<and> list_all valor_unit_int (filter sel (carregar df)))
                     (t_ss_atual t) (t_valor_unit t)) (tabela out))"
    "valor_novo out =
       agg_sum (list_all valor_unit_int (filter sel (carregar df))) (map t_valor_ss (tabela out))"
    "\<forall>t\<in>set (tabela out). t_criticidade t \<noteq> ''Total'' \<and> t_curva t \<noteq> ''Total''"
    "resumo (agg_sum (list_all valor_unit_int (filter sel (carregar df))))
       (map (\<lambda>t. (t_criticidade t, t_curva t, t_valor_ss t)) (tabela out))
       = Inr (matriz_valor out)"
    "resumo agg_mean (map (\<lambda>t. (t_criticidade t, t_curva t, t_cob_calculada t)) (tabela out))
       = Inr (matriz_cobertura out)"
    "resumo agg_count (map (\<lambda>t. (t_criticidade t, t_curva t, t_sku t)) (tabela out))
       = Inr (matriz_count out)"
proof -
  let ?rs = "filter sel (carregar df)"
  have nt: "\<forall>r\<in>set ?rs. criticidade r \<noteq> ''Total'' \<and> curva r \<noteq> ''Total''"
    using carregar_sem_total by blast
  show ?thesis
  proof (rule calcular_ok [OF assms nt, of ppf M])
    fix out
    assume o: "calcular ppf M ?rs = Inr out"
      and r: "resultado out = map metricas (map (\<lambda>r. fst (passo ppf M r)) ?rs)"
      and t: "tabela out = map linha_da_tabela (resultado out)"
      and x: "excel out = tabela out"
      and va: "valor_atual out =
         agg_sum (list_all estoque_seguranca_int ?rs \<and> list_all valor_unit_int ?rs)
           (map (\<lambda>t. vezes (list_all estoque_seguranca_int ?rs \<and> list_all valor_unit_int ?rs)
                     (t_ss_atual t) (t_valor_unit t)) (tabela out))"
      and vn: "valor_novo out = agg_sum (list_all valor_unit_int ?rs) (map t_valor_ss (tabela out))"
      and mv: "matriz_valor out = grade [''X'', ''Y'', ''Z'', ''Total'']
        (sort (remdups (map t_curva (tabela out))) @ [''Total''])
        (\<lambda>r c. if r = ''Total'' \<or> r \<in> t_criticidade ` set (tabela out)
               then celula_pivot (agg_sum (list_all valor_unit_int ?rs))
                      (map (\<lambda>t. (t_criticidade t, t_curva t, t_valor_ss t)) (tabela out)) r c
               else NaN)"
      and mc: "matriz_cobertura out = grade [''X'', ''Y'', ''Z'', ''Total'']
        (sort (remdups (map t_curva (tabela out))) @ [''Total''])
        (\<lambda>r c. if r = ''Total'' \<or> r \<in> t_criticidade ` set (tabela out)
               then celula_pivot agg_mean
                      (map (\<lambda>t. (t_criticidade t, t_curva t, t_cob_calculada t)) (tabela out)) r c
               else NaN)"
      and mn: "matriz_count out = grade [''X'', ''Y'', ''Z'', ''Total'']
        (sort (remdups (map t_curva (tabela out))) @ [''Total''])
        (\<lambda>r c. if r = ''Total'' \<or> r \<in> t_criticidade ` set (tabela out)
               then celula_pivot agg_count
                      (map (\<lambda>t. (t_criticidade t, t_curva t, t_sku t)) (tabela out)) r c
               else NaN)"
    have o': "app ppf M sel df = Inr out" using o by (simp add: app_def)
    have e: "map (\<lambda>x. entrada (calc x)) (resultado out) = ?rs"
      unfolding r by (simp add: o_def calc_metricas passo_entrada)
    have tc: "t_criticidade (linha_da_tabela (metricas c)) = criticidade (entrada c)"
             "t_curva (linha_da_tabela (metricas c)) = curva (entrada c)" for c
      by (simp_all add: linha_da_tabela_def metricas_def Let_def)
    have n: "\<forall>t\<in>set (tabela out). t_criticidade t \<noteq> ''Total'' \<and> t_curva t \<noteq> ''Total''"
      unfolding t r using nt by (simp add: tc passo_entrada)
    show thesis
      by (rule that [OF o' r e t x va vn n]) (simp_all only: resumo_tabela [OF n] mv mc mn)
  qed
qed

text \<open>The records of the example with the criticalities X, Y, Z and W.\<close>

subsection \<open>A frame with a criticality outside X, Y, Z\<close>

lemma ceil_exemplo_95: "\<lceil>16449 / 10000 * sqrt 3700\<rceil> = (101::int)"
proof -
  have lo: "6082 / 100 < sqrt 3700"
    by (rule real_less_rsqrt) (simp add: power2_eq_square)
  have hi: "sqrt 3700 < 6083 / 100"
    by (rule real_less_lsqrt) (simp_all add: power2_eq_square)
  have a: "100 < 16449 / 10000 * sqrt 3700" using lo by simp
  have b: "16449 / 10000 * sqrt 3700 \<le> 101" using hi by simp
  show ?thesis using a b by (intro ceiling_unique) simp_all
qed

lemma ceil_exemplo_98: "\<lceil>20537 / 10000 * sqrt 3700\<rceil> = (125::int)"
  by (intro ceil_exemplo) simp_all

lemma radicando_exemplos:
  "var_dem linha_exemplo + var_lt linha_exemplo = 3700"
  "var_dem linha_crit_y + var_lt linha_crit_y = 3700"
  "var_dem linha_crit_z + var_lt linha_crit_z = 3700"
  "var_dem linha_crit_w + var_lt linha_crit_w = 3700"
  by (simp_all add: var_dem_def var_lt_def periodo_def exemplos_defs power2_eq_square)

lemma z_exemplos:
  "z (fst (passo ppf_exemplo matriz_exemplo linha_exemplo)) = 20537 / 10000"
  "z (fst (passo ppf_exemplo matriz_exemplo linha_crit_y)) = 16449 / 10000"
  "z (fst (passo ppf_exemplo matriz_exemplo linha_crit_z)) = 16449 / 10000"
  "z (fst (passo ppf_exemplo matriz_exemplo linha_crit_w)) = 16449 / 10000"
  by (simp_all add: passo_z passo_nivel mapeada_def matriz_exemplo_def matriz_default_def
      exemplos_defs ppf_exemplo_def)

lemma ss_exemplos:
  "ss_arredondado (fst (passo ppf_exemplo matriz_exemplo linha_exemplo)) = 125"
  "ss_arredondado (fst (passo ppf_exemplo matriz_exemplo linha_crit_y)) = 101"
  "ss_arredondado (fst (passo ppf_exemplo matriz_exemplo linha_crit_z)) = 101"
  "ss_arredondado (fst (passo ppf_exemplo matriz_exemplo linha_crit_w)) = 101"
proof -
  have a: "ceil_astype_int (Fin (20537 / 10000 * sqrt 3700)) = 125"
    using ceil_no_int64 [of "20537 / 10000 * sqrt 3700"] unfolding ceil_exemplo_98 by simp
  have b: "ceil_astype_int (Fin (16449 / 10000 * sqrt 3700)) = 101"
    using ceil_no_int64 [of "16449 / 10000 * sqrt 3700"] unfolding ceil_exemplo_95 by simp
  have f: "ss_calc zv r = Fin (zv * sqrt 3700)" if "var_dem r + var_lt r = 3700" for zv r
    using ss_calc_fin [of r zv] that by simp
  show "ss_arredondado (fst (passo ppf_exemplo matriz_exemplo linha_exemplo)) = 125"
    by (simp only: passo_ss z_exemplos f [OF radicando_exemplos(1)] a)
  show "ss_arredondado (fst (passo ppf_exemplo matriz_exemplo linha_crit_y)) = 101"
    by (simp only: passo_ss z_exemplos f [OF radicando_exemplos(2)] b)
  show "ss_arredondado (fst (passo ppf_exemplo matriz_exemplo linha_crit_z)) = 101"
    by (simp only: passo_ss z_exemplos f [OF radicando_exemplos(3)] b)
  show "ss_arredondado (fst (passo ppf_exemplo matriz_exemplo linha_crit_w)) = 101"
    by (simp only: passo_ss z_exemplos f [OF radicando_exemplos(4)] b)
qed

lemma round2_exemplos:
  "round2 1250 = 1250" "round2 1010 = 1010" "round2 (5 / 4) = 5 / 4"
  "round2 (101 / 100) = 101 / 100"
  by (simp_all add: round2_def rint_def Let_def)

lemma tabela_exemplos:
  "t_valor_ss (linha_da_tabela (metricas (fst (passo ppf_exemplo matriz_exemplo linha_exemplo)))) = 1250"
  "t_valor_ss (linha_da_tabela (metricas (fst (passo ppf_exemplo matriz_exemplo linha_crit_y)))) = 1010"
  "t_valor_ss (linha_da_tabela (metricas (fst (passo ppf_exemplo matriz_exemplo linha_crit_z)))) = 1010"
  "t_valor_ss (linha_da_tabela (metricas (fst (passo ppf_exemplo matriz_exemplo linha_crit_w)))) = 1010"
  "t_cob_calculada (linha_da_tabela (metricas (fst (passo ppf_exemplo matriz_exemplo linha_exemplo)))) = 5 / 4"
  "t_cob_calculada (linha_da_tabela (metricas (fst (passo ppf_exemplo matriz_exemplo linha_crit_y)))) = 101 / 100"
  "t_cob_calculada (linha_da_tabela (metricas (fst (passo ppf_exemplo matriz_exemplo linha_crit_z)))) = 101 / 100"
  "t_cob_calculada (linha_da_tabela (metricas (fst (passo ppf_exemplo matriz_exemplo linha_crit_w)))) = 101 / 100"
proof -
  have c: "valor_unit linha_exemplo = 10" "valor_unit linha_crit_y = 10"
    "valor_unit linha_crit_z = 10" "valor_unit linha_crit_w = 10"
    "valor_unit_int linha_exemplo" "valor_unit_int linha_crit_y"
    "valor_unit_int linha_crit_z" "valor_unit_int linha_crit_w"
    "consumo_medio linha_exemplo = 100" "consumo_medio linha_crit_y = 100"
    "consumo_medio linha_crit_z = 100" "consumo_medio linha_crit_w = 100"
    by (simp_all add: exemplos_defs)
  show
  "t_valor_ss (linha_da_tabela (metricas (fst (passo ppf_exemplo matriz_exemplo linha_exemplo)))) = 1250"
  "t_valor_ss (linha_da_tabela (metricas (fst (passo ppf_exemplo matriz_exemplo linha_crit_y)))) = 1010"
  "t_valor_ss (linha_da_tabela (metricas (fst (passo ppf_exemplo matriz_exemplo linha_crit_z)))) = 1010"
  "t_valor_ss (linha_da_tabela (metricas (fst (passo ppf_exemplo matriz_exemplo linha_crit_w)))) = 1010"
  "t_cob_calculada (linha_da_tabela (metricas (fst (passo ppf_exemplo matriz_exemplo linha_exemplo)))) = 5 / 4"
  "t_cob_calculada (linha_da_tabela (metricas (fst (passo ppf_exemplo matriz_exemplo linha_crit_y)))) = 101 / 100"
  "t_cob_calculada (linha_da_tabela (metricas (fst (passo ppf_exemplo matriz_exemplo linha_crit_z)))) = 101 / 100"
  "t_cob_calculada (linha_da_tabela (metricas (fst (passo ppf_exemplo matriz_exemplo linha_crit_w)))) = 101 / 100"
    by (simp_all add: colunas_da_tabela colunas_do_resultado calc_metricas passo_entrada
        ss_exemplos c wrap64_def round2_exemplos)
qed

lemma chaves_exemplos:
  "t_criticidade (linha_da_tabela (metricas (fst (passo ppf M linha_exemplo)))) = ''X''"
  "t_criticidade (linha_da_tabela (metricas (fst (passo ppf M linha_crit_y)))) = ''Y''"
  "t_criticidade (linha_da_tabela (metricas (fst (passo ppf M linha_crit_z)))) = ''Z''"
  "t_criticidade (linha_da_tabela (metricas (fst (passo ppf M linha_crit_w)))) = ''W''"
  "t_curva (linha_da_tabela (metricas (fst (passo ppf M linha_exemplo)))) = ''A''"
  "t_curva (linha_da_tabela (metricas (fst (passo ppf M linha_crit_y)))) = ''A''"
  "t_curva (linha_da_tabela (metricas (fst (passo ppf M linha_crit_z)))) = ''A''"
  "t_curva (linha_da_tabela (metricas (fst (passo ppf M linha_crit_w)))) = ''A''"
  by (simp_all add: chaves_da_tabela calc_metricas passo_entrada exemplos_defs)

lemma carregar_xyzw:
  "filter todas (carregar [linha_exemplo, linha_crit_y, linha_crit_z, linha_crit_w])
     = [linha_exemplo, linha_crit_y, linha_crit_z, linha_crit_w]"
  by (simp add: todas_def carregar_def padronizar_def exemplos_defs str_upper_def upper_char_def)

lemma dtype_xyzw:
  "list_all valor_unit_int [linha_exemplo, linha_crit_y, linha_crit_z, linha_crit_w]"
  by (simp add: exemplos_defs)

subsection \<open>Records outside the index of the matrices\<close>

lemma celulas_do_resumo:
  fixes tab :: "linha_tabela list"
  assumes n: "\<forall>t\<in>set tab. t_criticidade t \<noteq> ''Total'' \<and> t_curva t \<noteq> ''Total''"
    and v: "resumo (agg_sum vi) (map (\<lambda>t. (t_criticidade t, t_curva t, t_valor_ss t)) tab) = Inr mv"
    and c: "resumo agg_mean (map (\<lambda>t. (t_criticidade t, t_curva t, t_cob_calculada t)) tab) = Inr mc"
    and q: "resumo agg_count (map (\<lambda>t. (t_criticidade t, t_curva t, t_sku t)) tab) = Inr mn"
    and t: "t \<in> set tab"
    and w: "t_criticidade t \<notin> set [''X'', ''Y'', ''Z'']"
  shows "loc mv (t_criticidade t) (t_curva t) = None \<and>
        loc mc (t_criticidade t) (t_curva t) = None \<and>
        loc mn (t_criticidade t) (t_curva t) = None \<and>
        t \<in> set (filter (\<lambda>u. t_curva u = t_curva t) tab) \<and>
        loc mv ''Total'' (t_curva t)
          = Some (Fin
              (if vi
               then real_of_int ((\<lfloor>sum_list (map t_valor_ss
                      (filter (\<lambda>u. t_curva u = t_curva t) tab))\<rfloor> + 2 ^ 63) mod 2 ^ 64 - 2 ^ 63)
               else sum_list (map t_valor_ss (filter (\<lambda>u. t_curva u = t_curva t) tab)))) \<and>
        loc mc ''Total'' (t_curva t)
          = Some (Fin (sum_list (map t_cob_calculada (filter (\<lambda>u. t_curva u = t_curva t) tab))
                       / real (length (filter (\<lambda>u. t_curva u = t_curva t) tab)))) \<and>
        loc mn ''Total'' (t_curva t)
          = Some (Fin (real (length (filter (\<lambda>u. t_curva u = t_curva t) tab)))) \<and>
        (\<forall>k\<in>set [''X'', ''Y'', ''Z''].
           loc mv k (t_curva t)
             = Some (if k \<in> t_criticidade ` set tab
                     then Fin
                       (if filter (\<lambda>u. t_criticidade u = k \<and> t_curva u = t_curva t) tab = []
                        then 0
                        else if vi
                        then real_of_int ((\<lfloor>sum_list (map t_valor_ss (filter
                               (\<lambda>u. t_criticidade u = k \<and> t_curva u = t_curva t) tab))\<rfloor> + 2 ^ 63) mod 2 ^ 64 - 2 ^ 63)
                        else sum_list (map t_valor_ss (filter
                               (\<lambda>u. t_criticidade u = k \<and> t_curva u = t_curva t) tab)))
                     else NaN) \<and>
           loc mc k (t_curva t)
             = Some (if k \<in> t_criticidade ` set tab
                     then Fin
                       (if filter (\<lambda>u. t_criticidade u = k \<and> t_curva u = t_curva t) tab = []
                        then 0
                        else sum_list (map t_cob_calculada (filter
                               (\<lambda>u. t_criticidade u = k \<and> t_curva u = t_curva t) tab))
                             / real (length (filter
                               (\<lambda>u. t_criticidade u = k \<and> t_curva u = t_curva t) tab)))
                     else NaN) \<and>
           loc mn k (t_curva t)
             = Some (if k \<in> t_criticidade ` set tab
                     then Fin (real (length (filter
                            (\<lambda>u. t_criticidade u = k \<and> t_curva u = t_curva t) tab)))
                     else NaN)) \<and>
        length (filter (\<lambda>u. t_curva u = t_curva t \<and> t_criticidade u \<in> set [''X'', ''Y'', ''Z'']) tab)
          < length (filter (\<lambda>u. t_curva u = t_curva t) tab)"
proof -
  have nt: "t_criticidade t \<noteq> ''Total''" using n t by blast
  have cu: "t_curva t \<in> t_curva ` set tab" using t by blast
  have 1: "loc mv (t_criticidade t) (t_curva t) = None"
    by (rule loc_resumo(5) [OF n v nt w])
  have 2: "loc mc (t_criticidade t) (t_curva t) = None"
    by (rule loc_resumo(5) [OF n c nt w])
  have 3: "loc mn (t_criticidade t) (t_curva t) = None"
    by (rule loc_resumo(5) [OF n q nt w])
  have m: "t \<in> set (filter (\<lambda>u. t_curva u = t_curva t) tab)" using t by simp
  have 4: "loc mv ''Total'' (t_curva t)
        = Some (Fin
            (if vi
             then real_of_int ((\<lfloor>sum_list (map t_valor_ss
                    (filter (\<lambda>u. t_curva u = t_curva t) tab))\<rfloor> + 2 ^ 63) mod 2 ^ 64 - 2 ^ 63)
             else sum_list (map t_valor_ss (filter (\<lambda>u. t_curva u = t_curva t) tab))))"
    using loc_resumo(4) [OF n v cu] by (simp add: agg_sum_def wrap64_def)
  have 5: "loc mc ''Total'' (t_curva t)
        = Some (Fin (sum_list (map t_cob_calculada (filter (\<lambda>u. t_curva u = t_curva t) tab))
                     / real (length (filter (\<lambda>u. t_curva u = t_curva t) tab))))"
    using loc_resumo(4) [OF n c cu] by (simp add: agg_mean_def)
  have 6: "loc mn ''Total'' (t_curva t)
        = Some (Fin (real (length (filter (\<lambda>u. t_curva u = t_curva t) tab))))"
    using loc_resumo(4) [OF n q cu] by (simp add: agg_count_def)
  have 7: "loc mv k (t_curva t)
           = Some (if k \<in> t_criticidade ` set tab
                   then Fin
                     (if filter (\<lambda>u. t_criticidade u = k \<and> t_curva u = t_curva t) tab = []
                      then 0
                      else if vi
                      then real_of_int ((\<lfloor>sum_list (map t_valor_ss (filter
                             (\<lambda>u. t_criticidade u = k \<and> t_curva u = t_curva t) tab))\<rfloor> + 2 ^ 63) mod 2 ^ 64 - 2 ^ 63)
                      else sum_list (map t_valor_ss (filter
                             (\<lambda>u. t_criticidade u = k \<and> t_curva u = t_curva t) tab)))
                   else NaN) \<and>
         loc mc k (t_curva t)
           = Some (if k \<in> t_criticidade ` set tab
                   then Fin
                     (if filter (\<lambda>u. t_criticidade u = k \<and> t_curva u = t_curva t) tab = []
                      then 0
                      else sum_list (map t_cob_calculada (filter
                             (\<lambda>u. t_criticidade u = k \<and> t_curva u = t_curva t) tab))
                           / real (length (filter
                             (\<lambda>u. t_criticidade u = k \<and> t_curva u = t_curva t) tab)))
                   else NaN) \<and>
         loc mn k (t_curva t)
           = Some (if k \<in> t_criticidade ` set tab
                   then Fin (real (length (filter
                          (\<lambda>u. t_criticidade u = k \<and> t_curva u = t_curva t) tab)))
                   else NaN)"
    if kk: "k \<in> set [''X'', ''Y'', ''Z'']" for k
  proof (cases "k \<in> t_criticidade ` set tab")
    case True
    show ?thesis
      using loc_resumo(8) [OF n v kk True cu] loc_resumo(8) [OF n c kk True cu]
        loc_resumo(8) [OF n q kk True cu] True
      by (simp add: agg_sum_def wrap64_def agg_mean_def agg_count_def Let_def)
  next
    case False
    show ?thesis
      using loc_resumo(6) [OF n v kk False cu] loc_resumo(6) [OF n c kk False cu]
        loc_resumo(6) [OF n q kk False cu] False
      by simp
  qed
  have 8: "length (filter (\<lambda>u. t_curva u = t_curva t \<and> t_criticidade u \<in> set [''X'', ''Y'', ''Z'']) tab)
        < length (filter (\<lambda>u. t_curva u = t_curva t) tab)"
  proof -
    have "filter (\<lambda>u. t_curva u = t_curva t \<and> t_criticidade u \<in> set [''X'', ''Y'', ''Z'']) tab
        = filter (\<lambda>u. t_criticidade u \<in> set [''X'', ''Y'', ''Z''])
            (filter (\<lambda>u. t_curva u = t_curva t) tab)"
      by (simp add: conj_commute)
    then show ?thesis
      using w m length_filter_less [of t "filter (\<lambda>u. t_curva u = t_curva t) tab"
          "\<lambda>u. t_criticidade u \<in> set [''X'', ''Y'', ''Z'']"]
      by simp
  qed
  from 7 have k7: "\<forall>k\<in>set [''X'', ''Y'', ''Z''].
         loc mv k (t_curva t)
           = Some (if k \<in> t_criticidade ` set tab
                   then Fin
                     (if filter (\<lambda>u. t_criticidade u = k \<and> t_curva u = t_curva t) tab = []
                      then 0
                      else if vi
                      then real_of_int ((\<lfloor>sum_list (map t_valor_ss (filter
                             (\<lambda>u. t_criticidade u = k \<and> t_curva u = t_curva t) tab))\<rfloor> + 2 ^ 63) mod 2 ^ 64 - 2 ^ 63)
                      else sum_list (map t_valor_ss (filter
                             (\<lambda>u. t_criticidade u = k \<and> t_curva u = t_curva t) tab)))
                   else NaN) \<and>
         loc mc k (t_curva t)
           = Some (if k \<in> t_criticidade ` set tab
                   then Fin
                     (if filter (\<lambda>u. t_criticidade u = k \<and> t_curva u = t_curva t) tab = []
                      then 0
                      else sum_list (map t_cob_calculada (filter
                             (\<lambda>u. t_criticidade u = k \<and> t_curva u = t_curva t) tab))
                           / real (length (filter
                             (\<lambda>u. t_criticidade u = k \<and> t_curva u = t_curva t) tab)))
                   else NaN) \<and>
         loc mn k (t_curva t)
           = Some (if k \<in> t_criticidade ` set tab
                   then Fin (real (length (filter
                          (\<lambda>u. t_criticidade u = k \<and> t_curva u = t_curva t) tab)))
                   else NaN)"
    by (rule ballI)
  show ?thesis by (intro conjI 1 2 3 m 4 5 6 k7 8)
qed

lemma celulas_exemplo:
  "\<exists>out. app ppf_exemplo matriz_exemplo todas
              [linha_exemplo, linha_crit_y, linha_crit_z, linha_crit_w] = Inr out \<and>
       loc (matriz_valor out) ''X'' ''A'' = Some (Fin 1250) \<and>
       loc (matriz_valor out) ''Y'' ''A'' = Some (Fin 1010) \<and>
       loc (matriz_valor out) ''Z'' ''A'' = Some (Fin 1010) \<and>
       loc (matriz_valor out) ''Total'' ''A'' = Some (Fin 4280) \<and>
       loc (matriz_cobertura out) ''X'' ''A'' = Some (Fin (125 / 100)) \<and>
       loc (matriz_cobertura out) ''Y'' ''A'' = Some (Fin (101 / 100)) \<and>
       loc (matriz_cobertura out) ''Z'' ''A'' = Some (Fin (101 / 100)) \<and>
       loc (matriz_cobertura out) ''Total'' ''A'' = Some (Fin (107 / 100)) \<and>
       loc (matriz_count out) ''X'' ''A'' = Some (Fin 1) \<and>
       loc (matriz_count out) ''Y'' ''A'' = Some (Fin 1) \<and>
       loc (matriz_count out) ''Z'' ''A'' = Some (Fin 1) \<and>
       loc (matriz_count out) ''Total'' ''A'' = Some (Fin 4)"
proof -
  let ?F = "[linha_exemplo, linha_crit_y, linha_crit_z, linha_crit_w]"
  let ?T = "\<lambda>r. linha_da_tabela (metricas (fst (passo ppf_exemplo matriz_exemplo r)))"
  have h: "filter todas (carregar ?F) \<noteq> []" unfolding carregar_xyzw by simp
  show ?thesis
  proof (rule saida_de [OF h, of ppf_exemplo matriz_exemplo])
    fix out
    assume o: "app ppf_exemplo matriz_exemplo todas ?F = Inr out"
      and r: "resultado out = map metricas (map (\<lambda>r. fst (passo ppf_exemplo matriz_exemplo r))
              (filter todas (carregar ?F)))"
      and e: "map (\<lambda>x. entrada (calc x)) (resultado out) = filter todas (carregar ?F)"
      and tb: "tabela out = map linha_da_tabela (resultado out)"
      and x: "excel out = tabela out"
      and va: "valor_atual out =
         agg_sum (list_all estoque_seguranca_int (filter todas (carregar ?F))
                  \<and> list_all valor_unit_int (filter todas (carregar ?F)))
           (map (\<lambda>t. vezes (list_all estoque_seguranca_int (filter todas (carregar ?F))
                             \<and> list_all valor_unit_int (filter todas (carregar ?F)))
                       (t_ss_atual t) (t_valor_unit t)) (tabela out))"
      and vn: "valor_novo out =
         agg_sum (list_all valor_unit_int (filter todas (carregar ?F))) (map t_valor_ss (tabela out))"
      and n: "\<forall>t\<in>set (tabela out). t_criticidade t \<noteq> ''Total'' \<and> t_curva t \<noteq> ''Total''"
      and mv: "resumo (agg_sum (list_all valor_unit_int (filter todas (carregar ?F))))
         (map (\<lambda>t. (t_criticidade t, t_curva t, t_valor_ss t)) (tabela out)) = Inr (matriz_valor out)"
      and mc: "resumo agg_mean (map (\<lambda>t. (t_criticidade t, t_curva t, t_cob_calculada t)) (tabela out))
         = Inr (matriz_cobertura out)"
      and mn: "resumo agg_count (map (\<lambda>t. (t_criticidade t, t_curva t, t_sku t)) (tabela out))
         = Inr (matriz_count out)"
    have tab: "tabela out = [?T linha_exemplo, ?T linha_crit_y, ?T linha_crit_z, ?T linha_crit_w]"
      unfolding tb r carregar_xyzw by simp
    note mv' = mv [unfolded carregar_xyzw]
    have cr: "''X'' \<in> t_criticidade ` set (tabela out)" "''Y'' \<in> t_criticidade ` set (tabela out)"
      "''Z'' \<in> t_criticidade ` set (tabela out)"
      and cu: "''A'' \<in> t_curva ` set (tabela out)"
      by (simp_all add: tab chaves_exemplos)
    have xyz: "''X'' \<in> set [''X'', ''Y'', ''Z'']" "''Y'' \<in> set [''X'', ''Y'', ''Z'']"
      "''Z'' \<in> set [''X'', ''Y'', ''Z'']"
      by simp_all
    have vi: "valor_unit_int linha_exemplo" "valor_unit_int linha_crit_y"
      "valor_unit_int linha_crit_z" "valor_unit_int linha_crit_w"
      using dtype_xyzw by simp_all
    have v: "loc (matriz_valor out) ''X'' ''A'' = Some (Fin 1250)"
      "loc (matriz_valor out) ''Y'' ''A'' = Some (Fin 1010)"
      "loc (matriz_valor out) ''Z'' ''A'' = Some (Fin 1010)"
      "loc (matriz_valor out) ''Total'' ''A'' = Some (Fin 4280)"
      using loc_resumo(8) [OF n mv' xyz(1) cr(1) cu] loc_resumo(8) [OF n mv' xyz(2) cr(2) cu]
        loc_resumo(8) [OF n mv' xyz(3) cr(3) cu] loc_resumo(4) [OF n mv' cu]
      by (simp_all add: tab chaves_exemplos tabela_exemplos agg_sum_def vi wrap64_def)
    have c: "loc (matriz_cobertura out) ''X'' ''A'' = Some (Fin (125 / 100))"
      "loc (matriz_cobertura out) ''Y'' ''A'' = Some (Fin (101 / 100))"
      "loc (matriz_cobertura out) ''Z'' ''A'' = Some (Fin (101 / 100))"
      "loc (matriz_cobertura out) ''Total'' ''A'' = Some (Fin (107 / 100))"
      using loc_resumo(8) [OF n mc xyz(1) cr(1) cu] loc_resumo(8) [OF n mc xyz(2) cr(2) cu]
        loc_resumo(8) [OF n mc xyz(3) cr(3) cu] loc_resumo(4) [OF n mc cu]
      by (simp_all add: tab chaves_exemplos tabela_exemplos agg_mean_def)
    have q: "loc (matriz_count out) ''X'' ''A'' = Some (Fin 1)"
      "loc (matriz_count out) ''Y'' ''A'' = Some (Fin 1)"
      "loc (matriz_count out) ''Z'' ''A'' = Some (Fin 1)"
      "loc (matriz_count out) ''Total'' ''A'' = Some (Fin 4)"
      using loc_resumo(8) [OF n mn xyz(1) cr(1) cu] loc_resumo(8) [OF n mn xyz(2) cr(2) cu]
        loc_resumo(8) [OF n mn xyz(3) cr(3) cu] loc_resumo(4) [OF n mn cu]
      by (simp_all add: tab chaves_exemplos agg_count_def)
    show ?thesis
      by (intro exI [of _ out] conjI o v c q)
  qed
qed

text \<open>
  C10. The summary matrices have the rows X, Y, Z and 'Total'. For a record whose
  criticality is none of X, Y, Z there is no row (looking its cell up is a KeyError), and
  the cell of row 'Total' in its column aggregates all the records of that column, this
  record included: it is the sum of their values, the mean of their coverages, and
  their number. The cells X, Y, Z of that column hold the sum, the mean and the number
  of their own groups (0 for a group without records, NaN for a criticality without
  records), and these groups together have fewer records than the column. So the cells
  X, Y, Z need not sum or average to the cell of 'Total': with the four example records
  of criticality X, Y, Z and W, all of curve A, the values are 1250, 1010, 1010 against
  a total of 4280, the mean coverages 1.25, 1.01, 1.01 against 1.07, and the counts
  1, 1, 1 against 4.
\<close>

theorem linha_fora_do_indice:
  assumes "filter sel (carregar df) \<noteq> []"
  shows "(\<exists>out. app ppf M sel df = Inr out \<and>
     map (\<lambda>t. (t_criticidade t, t_curva t)) (tabela out)
       = map (\<lambda>r. (criticidade r, curva r)) (filter sel (carregar df)) \<and>
     f_index (matriz_valor out) = [''X'', ''Y'', ''Z'', ''Total''] \<and>
     f_index (matriz_cobertura out) = [''X'', ''Y'', ''Z'', ''Total''] \<and>
     f_index (matriz_count out) = [''X'', ''Y'', ''Z'', ''Total''] \<and>
     (\<forall>t\<in>set (tabela out). t_criticidade t \<notin> set [''X'', ''Y'', ''Z''] \<longrightarrow>
        loc (matriz_valor out) (t_criticidade t) (t_curva t) = None \<and>
        loc (matriz_cobertura out) (t_criticidade t) (t_curva t) = None \<and>
        loc (matriz_count out) (t_criticidade t) (t_curva t) = None \<and>
        t \<in> set (filter (\<lambda>u. t_curva u = t_curva t) (tabela out)) \<and>
        loc (matriz_valor out) ''Total'' (t_curva t)
          = Some (Fin
              (if list_all valor_unit_int (filter sel (carregar df))
               then real_of_int ((\<lfloor>sum_list (map t_valor_ss
                      (filter (\<lambda>u. t_curva u = t_curva t) (tabela out)))\<rfloor> + 2 ^ 63) mod 2 ^ 64 - 2 ^ 63)
               else sum_list (map t_valor_ss
                      (filter (\<lambda>u. t_curva u = t_curva t) (tabela out))))) \<and>
        loc (matriz_cobertura out) ''Total'' (t_curva t)
          = Some (Fin (sum_list (map t_cob_calculada
                         (filter (\<lambda>u. t_curva u = t_curva t) (tabela out)))
                       / real (length (filter (\<lambda>u. t_curva u = t_curva t) (tabela out))))) \<and>
        loc (matriz_count out) ''Total'' (t_curva t)
          = Some (Fin (real (length (filter (\<lambda>u. t_curva u = t_curva t) (tabela out))))) \<and>
        (\<forall>k\<in>set [''X'', ''Y'', ''Z''].
           loc (matriz_valor out) k (t_curva t)
             = Some (if k \<in> t_criticidade ` set (tabela out)
                     then Fin
                       (if filter (\<lambda>u. t_criticidade u = k \<and> t_curva u = t_curva t) (tabela out) = []
                        then 0
                        else if list_all valor_unit_int (filter sel (carregar df))
                        then real_of_int ((\<lfloor>sum_list (map t_valor_ss (filter
                               (\<lambda>u. t_criticidade u = k \<and> t_curva u = t_curva t) (tabela out)))\<rfloor> + 2 ^ 63) mod 2 ^ 64 - 2 ^ 63)
                        else sum_list (map t_valor_ss (filter
                               (\<lambda>u. t_criticidade u = k \<and> t_curva u = t_curva t) (tabela out))))
                     else NaN) \<and>
           loc (matriz_cobertura out) k (t_curva t)
             = Some (if k \<in> t_criticidade ` set (tabela out)
                     then Fin
                       (if filter (\<lambda>u. t_criticidade u = k \<and> t_curva u = t_curva t) (tabela out) = []
                        then 0
                        else sum_list (map t_cob_calculada (filter
                               (\<lambda>u. t_criticidade u = k \<and> t_curva u = t_curva t) (tabela out)))
                             / real (length (filter
                               (\<lambda>u. t_criticidade u = k \<and> t_curva u = t_curva t) (tabela out))))
                     else NaN) \<and>
           loc (matriz_count out) k (t_curva t)
             = Some (if k \<in> t_criticidade ` set (tabela out)
                     then Fin (real (length (filter
                            (\<lambda>u. t_criticidade u = k \<and> t_curva u = t_curva t) (tabela out))))
                     else NaN)) \<and>
        length (filter (\<lambda>u. t_curva u = t_curva t \<and> t_criticidade u \<in> set [''X'', ''Y'', ''Z''])
                  (tabela out))
          < length (filter (\<lambda>u. t_curva u = t_curva t) (tabela out)))) \<and>
    (\<exists>out. app ppf_exemplo matriz_exemplo todas
              [linha_exemplo, linha_crit_y, linha_crit_z, linha_crit_w] = Inr out \<and>
       loc (matriz_valor out) ''X'' ''A'' = Some (Fin 1250) \<and>
       loc (matriz_valor out) ''Y'' ''A'' = Some (Fin 1010) \<and>
       loc (matriz_valor out) ''Z'' ''A'' = Some (Fin 1010) \<and>
       loc (matriz_valor out) ''Total'' ''A'' = Some (Fin 4280) \<and>
       loc (matriz_cobertura out) ''X'' ''A'' = Some (Fin (125 / 100)) \<and>
       loc (matriz_cobertura out) ''Y'' ''A'' = Some (Fin (101 / 100)) \<and>
       loc (matriz_cobertura out) ''Z'' ''A'' = Some (Fin (101 / 100)) \<and>
       loc (matriz_cobertura out) ''Total'' ''A'' = Some (Fin (107 / 100)) \<and>
       loc (matriz_count out) ''X'' ''A'' = Some (Fin 1) \<and>
       loc (matriz_count out) ''Y'' ''A'' = Some (Fin 1) \<and>
       loc (matriz_count out) ''Z'' ''A'' = Some (Fin 1) \<and>
       loc (matriz_count out) ''Total'' ''A'' = Some (Fin 4))"
    (is "?A \<and> ?B")
proof -
  have a: ?A
  proof (rule saida_de [OF assms, of ppf M])
    fix out
    assume o: "app ppf M sel df = Inr out"
      and r: "resultado out = map metricas (map (\<lambda>r. fst (passo ppf M r)) (filter sel (carregar df)))"
      and e: "map (\<lambda>x. entrada (calc x)) (resultado out) = filter sel (carregar df)"
      and tb: "tabela out = map linha_da_tabela (resultado out)"
      and x: "excel out = tabela out"
      and va: "valor_atual out =
         agg_sum (list_all estoque_seguranca_int (filter sel (carregar df))
                  \<and> list_all valor_unit_int (filter sel (carregar df)))
           (map (\<lambda>t. vezes (list_all estoque_seguranca_int (filter sel (carregar df))
                             \<and> list_all valor_unit_int (filter sel (carregar df)))
                       (t_ss_atual t) (t_valor_unit t)) (tabela out))"
      and vn: "valor_novo out =
         agg_sum (list_all valor_unit_int (filter sel (carregar df))) (map t_valor_ss (tabela out))"
      and n: "\<forall>t\<in>set (tabela out). t_criticidade t \<noteq> ''Total'' \<and> t_curva t \<noteq> ''Total''"
      and mv: "resumo (agg_sum (list_all valor_unit_int (filter sel (carregar df))))
         (map (\<lambda>t. (t_criticidade t, t_curva t, t_valor_ss t)) (tabela out)) = Inr (matriz_valor out)"
      and mc: "resumo agg_mean (map (\<lambda>t. (t_criticidade t, t_curva t, t_cob_calculada t)) (tabela out))
         = Inr (matriz_cobertura out)"
      and mn: "resumo agg_count (map (\<lambda>t. (t_criticidade t, t_curva t, t_sku t)) (tabela out))
         = Inr (matriz_count out)"
    have "map (\<lambda>t. (t_criticidade t, t_curva t)) (tabela out)
        = map (\<lambda>r. (criticidade r, curva r)) (map (\<lambda>x. entrada (calc x)) (resultado out))"
      unfolding tb by (simp add: chaves_da_tabela)
    then have k: "map (\<lambda>t. (t_criticidade t, t_curva t)) (tabela out)
         = map (\<lambda>r. (criticidade r, curva r)) (filter sel (carregar df))"
      unfolding e .
    show ?thesis
      apply (rule exI [of _ out])
      apply (intro conjI o k loc_resumo(1) [OF n mv] loc_resumo(1) [OF n mc] loc_resumo(1) [OF n mn])
      apply (intro ballI impI)
      apply (rule celulas_do_resumo [OF n mv mc mn]; assumption)
      done
  qed
  have b: ?B by (rule celulas_exemplo)
  show ?thesis by (rule conjI [OF a b])
qed

theorem linha_fora_do_indice_witness:
  "\<exists>out. app ppf_exemplo matriz_exemplo todas [linha_exemplo, linha_crit_y, linha_crit_z, linha_crit_w] = Inr out \<and>
     f_index (matriz_valor out) = [''X'', ''Y'', ''Z'', ''Total''] \<and>
     f_index (matriz_cobertura out) = [''X'', ''Y'', ''Z'', ''Total''] \<and>
     f_index (matriz_count out) = [''X'', ''Y'', ''Z'', ''Total''] \<and>
     loc (matriz_valor out) ''W'' ''A'' = None \<and>
     loc (matriz_cobertura out) ''W'' ''A'' = None \<and>
     loc (matriz_count out) ''W'' ''A'' = None \<and>
     loc (matriz_valor out) ''X'' ''A'' = Some (Fin 1250) \<and>
     loc (matriz_valor out) ''Y'' ''A'' = Some (Fin 1010) \<and>
     loc (matriz_valor out) ''Z'' ''A'' = Some (Fin 1010) \<and>
     loc (matriz_valor out) ''Total'' ''A'' = Some (Fin 4280) \<and>
     loc (matriz_cobertura out) ''X'' ''A'' = Some (Fin (125 / 100)) \<and>
     loc (matriz_cobertura out) ''Y'' ''A'' = Some (Fin (101 / 100)) \<and>
     loc (matriz_cobertura out) ''Z'' ''A'' = Some (Fin (101 / 100)) \<and>
     loc (matriz_cobertura out) ''Total'' ''A'' = Some (Fin (107 / 100)) \<and>
     loc (matriz_count out) ''X'' ''A'' = Some (Fin 1) \<and>
     loc (matriz_count out) ''Y'' ''A'' = Some (Fin 1) \<and>
     loc (matriz_count out) ''Z'' ''A'' = Some (Fin 1) \<and>
     loc (matriz_count out) ''Total'' ''A'' = Some (Fin 4)"
proof -
  have h: "filter todas (carregar [linha_exemplo, linha_crit_y, linha_crit_z, linha_crit_w]) \<noteq> []"
    unfolding carregar_xyzw by simp
  note th = linha_fora_do_indice [OF h, of ppf_exemplo matriz_exemplo]
  from th [THEN conjunct1, unfolded carregar_xyzw] obtain out where
    a: "app ppf_exemplo matriz_exemplo todas [linha_exemplo, linha_crit_y, linha_crit_z, linha_crit_w] = Inr out \<and>
     map (\<lambda>t. (t_criticidade t, t_curva t)) (tabela out)
       = map (\<lambda>r. (criticidade r, curva r)) [linha_exemplo, linha_crit_y, linha_crit_z, linha_crit_w] \<and>
     f_index (matriz_valor out) = [''X'', ''Y'', ''Z'', ''Total''] \<and>
     f_index (matriz_cobertura out) = [''X'', ''Y'', ''Z'', ''Total''] \<and>
     f_index (matriz_count out) = [''X'', ''Y'', ''Z'', ''Total''] \<and>
     (\<forall>t\<in>set (tabela out). t_criticidade t \<notin> set [''X'', ''Y'', ''Z''] \<longrightarrow>
        loc (matriz_valor out) (t_criticidade t) (t_curva t) = None \<and>
        loc (matriz_cobertura out) (t_criticidade t) (t_curva t) = None \<and>
        loc (matriz_count out) (t_criticidade t) (t_curva t) = None \<and>
        t \<in> set (filter (\<lambda>u. t_curva u = t_curva t) (tabela out)) \<and>
        loc (matriz_valor out) ''Total'' (t_curva t)
          = Some (Fin
              (if list_all valor_unit_int [linha_exemplo, linha_crit_y, linha_crit_z, linha_crit_w]
               then real_of_int ((\<lfloor>sum_list (map t_valor_ss
                      (filter (\<lambda>u. t_curva u = t_curva t) (tabela out)))\<rfloor> + 2 ^ 63) mod 2 ^ 64 - 2 ^ 63)
               else sum_list (map t_valor_ss
                      (filter (\<lambda>u. t_curva u = t_curva t) (tabela out))))) \<and>
        loc (matriz_cobertura out) ''Total'' (t_curva t)
          = Some (Fin (sum_list (map t_cob_calculada
                         (filter (\<lambda>u. t_curva u = t_curva t) (tabela out)))
                       / real (length (filter (\<lambda>u. t_curva u = t_curva t) (tabela out))))) \<and>
        loc (matriz_count out) ''Total'' (t_curva t)
          = Some (Fin (real (length (filter (\<lambda>u. t_curva u = t_curva t) (tabela out))))) \<and>
        (\<forall>k\<in>set [''X'', ''Y'', ''Z''].
           loc (matriz_valor out) k (t_curva t)
             = Some (if k \<in> t_criticidade ` set (tabela out)
                     then Fin
                       (if filter (\<lambda>u. t_criticidade u = k \<and> t_curva u = t_curva t) (tabela out) = []
                        then 0
                        else if list_all valor_unit_int [linha_exemplo, linha_crit_y, linha_crit_z, linha_crit_w]
                        then real_of_int ((\<lfloor>sum_list (map t_valor_ss (filter
                               (\<lambda>u. t_criticidade u = k \<and> t_curva u = t_curva t) (tabela out)))\<rfloor> + 2 ^ 63) mod 2 ^ 64 - 2 ^ 63)
                        else sum_list (map t_valor_ss (filter
                               (\<lambda>u. t_criticidade u = k \<and> t_curva u = t_curva t) (tabela out))))
                     else NaN) \<and>
           loc (matriz_cobertura out) k (t_curva t)
             = Some (if k \<in> t_criticidade ` set (tabela out)
                     then Fin
                       (if filter (\<lambda>u. t_criticidade u = k \<and> t_curva u = t_curva t) (tabela out) = []
                        then 0
                        else sum_list (map t_cob_calculada (filter
                               (\<lambda>u. t_criticidade u = k \<and> t_curva u = t_curva t) (tabela out)))
                             / real (length (filter
                               (\<lambda>u. t_criticidade u = k \<and> t_curva u = t_curva t) (tabela out))))
                     else NaN) \<and>
           loc (matriz_count out) k (t_curva t)
             = Some (if k \<in> t_criticidade ` set (tabela out)
                     then Fin (real (length (filter
                            (\<lambda>u. t_criticidade u = k \<and> t_curva u = t_curva t) (tabela out))))
                     else NaN)) \<and>
        length (filter (\<lambda>u. t_curva u = t_curva t \<and> t_criticidade u \<in> set [''X'', ''Y'', ''Z''])
                  (tabela out))
          < length (filter (\<lambda>u. t_curva u = t_curva t) (tabela out)))"
    ..
  from th [THEN conjunct2] obtain out' where
    b: "app ppf_exemplo matriz_exemplo todas
              [linha_exemplo, linha_crit_y, linha_crit_z, linha_crit_w] = Inr out' \<and>
       loc (matriz_valor out') ''X'' ''A'' = Some (Fin 1250) \<and>
       loc (matriz_valor out') ''Y'' ''A'' = Some (Fin 1010) \<and>
       loc (matriz_valor out') ''Z'' ''A'' = Some (Fin 1010) \<and>
       loc (matriz_valor out') ''Total'' ''A'' = Some (Fin 4280) \<and>
       loc (matriz_cobertura out') ''X'' ''A'' = Some (Fin (125 / 100)) \<and>
       loc (matriz_cobertura out') ''Y'' ''A'' = Some (Fin (101 / 100)) \<and>
       loc (matriz_cobertura out') ''Z'' ''A'' = Some (Fin (101 / 100)) \<and>
       loc (matriz_cobertura out') ''Total'' ''A'' = Some (Fin (107 / 100)) \<and>
       loc (matriz_count out') ''X'' ''A'' = Some (Fin 1) \<and>
       loc (matriz_count out') ''Y'' ''A'' = Some (Fin 1) \<and>
       loc (matriz_count out') ''Z'' ''A'' = Some (Fin 1) \<and>
       loc (matriz_count out') ''Total'' ''A'' = Some (Fin 4)"
    ..
  note o = a [THEN conjunct1]
  note k = a [THEN conjunct2, THEN conjunct1]
  note i1 = a [THEN conjunct2, THEN conjunct2, THEN conjunct1]
  note i2 = a [THEN conjunct2, THEN conjunct2, THEN conjunct2, THEN conjunct1]
  note i3 = a [THEN conjunct2, THEN conjunct2, THEN conjunct2, THEN conjunct2, THEN conjunct1]
  note p = a [THEN conjunct2, THEN conjunct2, THEN conjunct2, THEN conjunct2, THEN conjunct2]
  have eq: "out' = out" using o b [THEN conjunct1] by simp
  note c = b [THEN conjunct2, unfolded eq]
  from k obtain t1 t2 t3 t4 where t: "tabela out = [t1, t2, t3, t4]"
    "t_criticidade t4 = ''W''" "t_curva t4 = ''A''"
    by (auto simp: map_eq_Cons_conv exemplos_defs)
  have m: "t4 \<in> set (tabela out)" by (simp add: t)
  have w: "t_criticidade t4 \<notin> set [''X'', ''Y'', ''Z'']" by (simp add: t)
  note q = p [THEN bspec, OF m, THEN mp, OF w]
  have n1: "loc (matriz_valor out) ''W'' ''A'' = None"
    using q [THEN conjunct1] by (simp only: t(2,3))
  have n2: "loc (matriz_cobertura out) ''W'' ''A'' = None"
    using q [THEN conjunct2, THEN conjunct1] by (simp only: t(2,3))
  have n3: "loc (matriz_count out) ''W'' ''A'' = None"
    using q [THEN conjunct2, THEN conjunct2, THEN conjunct1] by (simp only: t(2,3))
  note cs = c [THEN conjunct1]
    c [THEN conjunct2, THEN conjunct1]
    c [THEN conjunct2, THEN conjunct2, THEN conjunct1]
    c [THEN conjunct2, THEN conjunct2, THEN conjunct2, THEN conjunct1]
    c [THEN conjunct2, THEN conjunct2, THEN conjunct2, THEN conjunct2, THEN conjunct1]
    c [THEN conjunct2, THEN conjunct2, THEN conjunct2, THEN conjunct2, THEN conjunct2, THEN conjunct1]
    c [THEN conjunct2, THEN conjunct2, THEN conjunct2, THEN conjunct2, THEN conjunct2, THEN conjunct2, THEN conjunct1]
    c [THEN conjunct2, THEN conjunct2, THEN conjunct2, THEN conjunct2, THEN conjunct2, THEN conjunct2, THEN conjunct2, THEN conjunct1]
    c [THEN conjunct2, THEN conjunct2, THEN conjunct2, THEN conjunct2, THEN conjunct2, THEN conjunct2, THEN conjunct2, THEN conjunct2, THEN conjunct1]
    c [THEN conjunct2, THEN conjunct2, THEN conjunct2, THEN conjunct2, THEN conjunct2, THEN conjunct2, THEN conjunct2, THEN conjunct2, THEN conjunct2, THEN conjunct1]
    c [THEN conjunct2, THEN conjunct2, THEN conjunct2, THEN conjunct2, THEN conjunct2, THEN conjunct2, THEN conjunct2, THEN conjunct2, THEN conjunct2, THEN conjunct2, THEN conjunct1]
    c [THEN conjunct2, THEN conjunct2, THEN conjunct2, THEN conjunct2, THEN conjunct2, THEN conjunct2, THEN conjunct2, THEN conjunct2, THEN conjunct2, THEN conjunct2, THEN conjunct2]
  show ?thesis
    by (intro exI [of _ out] conjI o i1 i2 i3 n1 n2 n3 cs)
qed

subsection \<open>The rounded table\<close>








end
